theory Spec2Isabelle
  imports Main "HOL-Library.Word"
begin

unbundle bit_operations_syntax

section \<open>Machine types of termux.c\<close>

text \<open>
  \<open>jint\<close> and C's \<open>int\<close> are 32-bit two's complement values (read with \<open>sint\<close>);
  \<open>unsigned short\<close> is a 16-bit value (read with \<open>uint\<close>); \<open>tcflag_t\<close> is an
  unsigned 32-bit value.
\<close>

type_synonym jint = "32 word"
type_synonym c_int = "32 word"
type_synonym ushort = "16 word"
type_synonym tcflag_t = "32 word"

section \<open>ProcessReaper: \<open>Java_com_termux_terminal_JNI_waitFor\<close>\<close>

text \<open>
  The wait-status macros of \<^verbatim>\<open>sys/wait.h\<close> are not part of termux.c; they are
  written here as the C library of the target platform (Android's bionic, a Linux
  wait status) defines them:
  \<^verbatim>\<open>
  #define WEXITSTATUS(s) (((s) & 0xff00) >> 8)
  #define WTERMSIG(s)    ((s) & 0x7f)
  #define WIFEXITED(s)   (WTERMSIG(s) == 0)
  #define WIFSIGNALED(s) (WTERMSIG((s)+1) >= 2)
  \<close>
\<close>

definition WEXITSTATUS :: "c_int \<Rightarrow> c_int" where
  "WEXITSTATUS s = drop_bit 8 (s AND 0xff00)"

definition WTERMSIG :: "c_int \<Rightarrow> c_int" where
  "WTERMSIG s = s AND 0x7f"

definition WIFEXITED :: "c_int \<Rightarrow> bool" where
  "WIFEXITED s \<longleftrightarrow> WTERMSIG s = 0"

definition WIFSIGNALED :: "c_int \<Rightarrow> bool" where
  "WIFSIGNALED s \<longleftrightarrow> 2 \<le> sint (WTERMSIG (s + 1))"

text \<open>
  \<open>waitFor\<close> calls \<open>waitpid(pid, &status, 0)\<close> and decodes the status. The operating
  system's answer is the parameter \<open>waitpid\<close>: the status it stores for a process id.
\<close>

definition Java_com_termux_terminal_JNI_waitFor :: "(jint \<Rightarrow> c_int) \<Rightarrow> jint \<Rightarrow> jint" where
  "Java_com_termux_terminal_JNI_waitFor waitpid pid =
     (let status = waitpid pid in
      if WIFEXITED status then WEXITSTATUS status
      else if WIFSIGNALED status then - WTERMSIG status
      else 0)"

text \<open>
  Modelled from the spec: the \<open>ExitOutcome\<close> variant of the data model, which termux.c
  does not declare. \<open>waitFor\<close> hands one integer back to the embedding caller;
  \<open>exit_outcome\<close> reads it the way the function writes it: a negated signal number
  stands for \<open>Signaled\<close>, any other value is the exit code of \<open>Exited\<close>.
\<close>

datatype ExitOutcome = Exited int | Signaled int

definition exit_outcome :: "jint \<Rightarrow> ExitOutcome" where
  "exit_outcome r = (if sint r < 0 then Signaled (- sint r) else Exited (sint r))"

section \<open>The operating system as seen by one process\<close>

text \<open>
  \<^verbatim>\<open>struct winsize\<close> and the flag words of \<^verbatim>\<open>struct termios\<close>, with the Linux
  values of the three input flags that termux.c names.
\<close>

record winsize =
  ws_row :: ushort
  ws_col :: ushort
  ws_xpixel :: ushort
  ws_ypixel :: ushort

record termios =
  c_iflag :: tcflag_t
  c_oflag :: tcflag_t
  c_cflag :: tcflag_t
  c_lflag :: tcflag_t

definition IXON :: tcflag_t where "IXON = 0x400"
definition IXOFF :: tcflag_t where "IXOFF = 0x1000"
definition IUTF8 :: tcflag_t where "IUTF8 = 0x4000"

text \<open>A terminal device holds its line-discipline settings and its window size.\<close>

record tty =
  tty_termios :: termios
  tty_winsize :: winsize

text \<open>
  The library and system calls that termux.c issues, as they are recorded in the
  order of execution. \<open>Open\<close> carries the path and the descriptor returned.
\<close>

datatype call =
    Open string c_int
  | Grantpt c_int
  | Unlockpt c_int
  | Ptsname_r c_int
  | Tcgetattr c_int
  | Tcsetattr c_int termios
  | Ioctl_TIOCSWINSZ c_int winsize
  | Fork
  | Sigprocmask_unblock_all
  | Close c_int
  | Setsid
  | Dup2 c_int c_int
  | Opendir string
  | Closedir c_int
  | Clearenv
  | Putenv string
  | Chdir string
  | Perror string
  | Fflush_stderr
  | Execvp string "string list option"
  | ThrowNew string

text \<open>
  The state of the calling process: its open descriptors, the terminals that
  descriptors refer to, its environment, its working directory, and the calls made
  so far (oldest first).
\<close>

record os =
  fds :: "c_int set"
  ttys :: "c_int \<rightharpoonup> tty"
  environ :: "string list"
  wd :: string
  calls :: "call list"

definition issue :: "call \<Rightarrow> os \<Rightarrow> os" where
  "issue c s = s\<lparr>calls := calls s @ [c]\<rparr>"

text \<open>
  \<open>tcgetattr(fd, &tios)\<close> fills \<open>tios\<close> when \<open>fd\<close> is a terminal and leaves it as it
  was otherwise; \<open>tcsetattr(fd, TCSANOW, &tios)\<close> and \<open>ioctl(fd, TIOCSWINSZ, &sz)\<close>
  change the terminal behind \<open>fd\<close> and do nothing but fail on any other descriptor.
\<close>

definition tcgetattr :: "c_int \<Rightarrow> termios \<Rightarrow> os \<Rightarrow> termios \<times> os" where
  "tcgetattr fd tios s =
     (case ttys s fd of
        None \<Rightarrow> (tios, issue (Tcgetattr fd) s)
      | Some t \<Rightarrow> (tty_termios t, issue (Tcgetattr fd) s))"

definition tcsetattr :: "c_int \<Rightarrow> termios \<Rightarrow> os \<Rightarrow> os" where
  "tcsetattr fd tios s =
     (case ttys s fd of
        None \<Rightarrow> issue (Tcsetattr fd tios) s
      | Some t \<Rightarrow> issue (Tcsetattr fd tios) (s\<lparr>ttys := (ttys s)(fd \<mapsto> t\<lparr>tty_termios := tios\<rparr>)\<rparr>))"

definition ioctl_TIOCSWINSZ :: "c_int \<Rightarrow> winsize \<Rightarrow> os \<Rightarrow> os" where
  "ioctl_TIOCSWINSZ fd sz s =
     (case ttys s fd of
        None \<Rightarrow> issue (Ioctl_TIOCSWINSZ fd sz) s
      | Some t \<Rightarrow> issue (Ioctl_TIOCSWINSZ fd sz) (s\<lparr>ttys := (ttys s)(fd \<mapsto> t\<lparr>tty_winsize := sz\<rparr>)\<rparr>))"

section \<open>WindowControl: \<open>setPtyWindowSize\<close> and \<open>setPtyUTF8Mode\<close>\<close>

text \<open>
  The cast \<open>(unsigned short)\<close> of a \<open>jint\<close> keeps its low 16 bits (\<open>ucast\<close>). The
  products are computed in \<open>jint\<close>; where they leave the range of a 32-bit signed
  integer C leaves the result undefined, and the model wraps.
\<close>

definition Java_com_termux_terminal_JNI_setPtyWindowSize ::
    "os \<Rightarrow> jint \<Rightarrow> jint \<Rightarrow> jint \<Rightarrow> jint \<Rightarrow> jint \<Rightarrow> os" where
  "Java_com_termux_terminal_JNI_setPtyWindowSize s fd rows cols cell_width cell_height =
     (let sz = \<lparr> ws_row = ucast rows,
                 ws_col = ucast cols,
                 ws_xpixel = ucast (cols * cell_width),
                 ws_ypixel = ucast (rows * cell_height) \<rparr>
      in ioctl_TIOCSWINSZ fd sz s)"

text \<open>
  The geometry read-back of the testable properties: the window size a terminal
  descriptor reports (\<open>ioctl(fd, TIOCGWINSZ, &sz)\<close>), if it is a terminal.
\<close>

definition ioctl_TIOCGWINSZ :: "c_int \<Rightarrow> os \<Rightarrow> winsize option" where
  "ioctl_TIOCGWINSZ fd s = map_option tty_winsize (ttys s fd)"

text \<open>
  \<open>setPtyUTF8Mode\<close> declares \<open>tios\<close> without initialising it; \<open>tios0\<close> is what the
  stack holds there before \<open>tcgetattr\<close> runs.
\<close>

definition Java_com_termux_terminal_JNI_setPtyUTF8Mode :: "termios \<Rightarrow> os \<Rightarrow> jint \<Rightarrow> os" where
  "Java_com_termux_terminal_JNI_setPtyUTF8Mode tios0 s fd =
     (let (tios, s1) = tcgetattr fd tios0 s in
      if c_iflag tios AND IUTF8 = 0
      then tcsetattr fd (tios\<lparr>c_iflag := c_iflag tios OR IUTF8\<rparr>) s1
      else s1)"

text \<open>The flag writes among the calls of a process.\<close>

fun is_Tcsetattr :: "call \<Rightarrow> bool" where
  "is_Tcsetattr (Tcsetattr fd tios) = True"
| "is_Tcsetattr c = False"

definition flag_writes :: "os \<Rightarrow> call list" where
  "flag_writes s = filter is_Tcsetattr (calls s)"

section \<open>PtySession: \<open>create_subprocess\<close>\<close>

text \<open>
  What the operating system answers during one run of \<open>create_subprocess\<close>: the
  value each call returns, the name \<open>ptsname_r\<close> writes, the terminal behind a newly
  opened master, and the listing of \<^verbatim>\<open>/proc/self/fd\<close> (the descriptor of the
  directory stream and the entry names, or nothing when \<open>opendir\<close> returns NULL).
  \<open>fork_r\<close> also selects the process that is followed after the fork: the parent
  for a positive value, the child for 0. \<open>execvp_returns\<close> says that \<open>execvp\<close> failed;
  otherwise the process image is replaced.
\<close>

record answers =
  open_ptmx :: c_int
  grantpt_r :: c_int
  unlockpt_r :: c_int
  ptsname_r_r :: c_int
  devname :: string
  ptmx_tty :: tty
  fork_r :: c_int
  open_pts :: c_int
  opendir_r :: "(c_int \<times> string list) option"
  chdir_r :: c_int
  asprintf_chdir_r :: c_int
  asprintf_exec_r :: c_int
  execvp_returns :: bool

text \<open>
  How a run of \<open>create_subprocess\<close> ends for the process that is followed: it returns
  to its caller, it terminates through \<open>exit\<close> or \<open>_exit\<close> with the given argument,
  or its image is replaced by the command.
\<close>

datatype outcome = Return c_int | Exit c_int | Exec string "string list option"

definition throw_runtime_exception :: "os \<Rightarrow> string \<Rightarrow> c_int \<times> os" where
  "throw_runtime_exception s message = (- 1, issue (ThrowNew message) s)"

text \<open>Descriptor operations: \<open>open\<close>, \<open>close\<close>, \<open>dup2\<close>, \<open>opendir\<close>, \<open>closedir\<close>.\<close>

definition open_file :: "string \<Rightarrow> c_int \<Rightarrow> tty option \<Rightarrow> os \<Rightarrow> os" where
  "open_file path r term s =
     (if sint r < 0 then issue (Open path r) s
      else issue (Open path r) (s\<lparr>fds := insert r (fds s), ttys := (ttys s)(r := term)\<rparr>))"

definition close_fd :: "c_int \<Rightarrow> os \<Rightarrow> os" where
  "close_fd fd s = issue (Close fd) (s\<lparr>fds := fds s - {fd}, ttys := (ttys s)(fd := None)\<rparr>)"

definition dup2 :: "c_int \<Rightarrow> c_int \<Rightarrow> os \<Rightarrow> os" where
  "dup2 oldfd newfd s =
     (if oldfd \<in> fds s
      then issue (Dup2 oldfd newfd) (s\<lparr>fds := insert newfd (fds s), ttys := (ttys s)(newfd := ttys s oldfd)\<rparr>)
      else issue (Dup2 oldfd newfd) s)"

definition opendir :: "string \<Rightarrow> c_int \<Rightarrow> os \<Rightarrow> os" where
  "opendir path dir_fd s = issue (Opendir path) (s\<lparr>fds := insert dir_fd (fds s)\<rparr>)"

definition closedir :: "c_int \<Rightarrow> os \<Rightarrow> os" where
  "closedir dir_fd s = issue (Closedir dir_fd) (s\<lparr>fds := fds s - {dir_fd}, ttys := (ttys s)(dir_fd := None)\<rparr>)"

text \<open>
  \<open>atoi\<close> is the C library's: \<open>(int) strtol(str, NULL, 10)\<close>. \<open>strtol\<close> skips white
  space, takes an optional sign and then the decimal digits up to the first other
  character; it gives 0 when there is no digit (as for the entries \<open>.\<close> and \<open>..\<close>)
  and the nearest bound of a 64-bit \<open>long\<close> when the number is out of its range.
  The cast to \<open>int\<close> keeps the low 32 bits.
\<close>

definition isspace :: "char \<Rightarrow> bool" where
  "isspace c \<longleftrightarrow> (of_char c :: nat) = 32 \<or> (9 \<le> (of_char c :: nat) \<and> (of_char c :: nat) \<le> 13)"

definition isdigit :: "char \<Rightarrow> bool" where
  "isdigit c \<longleftrightarrow> 48 \<le> (of_char c :: nat) \<and> (of_char c :: nat) \<le> 57"

fun digits_value :: "int \<Rightarrow> string \<Rightarrow> int" where
  "digits_value acc [] = acc"
| "digits_value acc (c # cs) =
     (if isdigit c then digits_value (acc * 10 + (of_char c - 48)) cs else acc)"

definition strtol :: "string \<Rightarrow> int" where
  "strtol str =
     (case dropWhile isspace str of
        [] \<Rightarrow> 0
      | c # cs \<Rightarrow>
          if c = CHR ''-'' then max (- (2 ^ 63)) (- digits_value 0 cs)
          else if c = CHR ''+'' then min (2 ^ 63 - 1) (digits_value 0 cs)
          else min (2 ^ 63 - 1) (digits_value 0 (c # cs)))"

definition atoi :: "string \<Rightarrow> c_int" where
  "atoi str = word_of_int (strtol str)"

text \<open>
  The loop over \<open>readdir\<close>: every entry name is converted with \<open>atoi\<close>, and the
  descriptor is closed when it is above 2 and is not the directory stream's own.
  The entry names are those the directory stream delivers, in its order.
\<close>

fun close_entries :: "c_int \<Rightarrow> string list \<Rightarrow> os \<Rightarrow> os" where
  "close_entries self_dir_fd [] s = s"
| "close_entries self_dir_fd (d_name # entries) s =
     (let fd = atoi d_name in
      close_entries self_dir_fd entries
        (if 2 < sint fd \<and> fd \<noteq> self_dir_fd then close_fd fd s else s))"

text \<open>The test of that loop, as a predicate on the converted descriptor.\<close>

definition closable :: "c_int \<Rightarrow> c_int \<Rightarrow> bool" where
  "closable self_dir_fd fd \<longleftrightarrow> 2 < sint fd \<and> fd \<noteq> self_dir_fd"

definition close_inherited_fds :: "(c_int \<times> string list) option \<Rightarrow> os \<Rightarrow> os" where
  "close_inherited_fds dir s =
     (case dir of
        None \<Rightarrow> issue (Opendir ''/proc/self/fd'') s
      | Some (self_dir_fd, entries) \<Rightarrow>
          closedir self_dir_fd
            (close_entries self_dir_fd entries (opendir ''/proc/self/fd'' self_dir_fd s)))"

text \<open>
  \<open>clearenv\<close> empties the environment. \<open>putenv\<close> is the C library's (bionic): a
  string without \<open>=\<close>, or starting with it, is refused; a string whose name is
  already defined takes the place of the first such entry and the later entries
  of that name are dropped; any other string is appended.
\<close>

definition clearenv :: "os \<Rightarrow> os" where
  "clearenv s = issue Clearenv (s\<lparr>environ := []\<rparr>)"

definition env_name :: "string \<Rightarrow> string" where
  "env_name str = takeWhile (\<lambda>c. c \<noteq> CHR ''='') str"

definition entry_of :: "string \<Rightarrow> string \<Rightarrow> bool" where
  "entry_of name entry \<longleftrightarrow> take (length name + 1) entry = name @ ''=''"

fun replace_entry :: "string \<Rightarrow> string \<Rightarrow> bool \<Rightarrow> string list \<Rightarrow> string list" where
  "replace_entry str name placed [] = []"
| "replace_entry str name placed (e # es) =
     (if entry_of name e
      then (if placed then replace_entry str name True es
            else str # replace_entry str name True es)
      else e # replace_entry str name placed es)"

definition putenv_environ :: "string \<Rightarrow> string list \<Rightarrow> string list" where
  "putenv_environ str env =
     (let name = env_name str in
      if name = [] \<or> CHR ''='' \<notin> set str then env
      else if list_ex (entry_of name) env then replace_entry str name False env
      else env @ [str])"

definition putenv :: "string \<Rightarrow> os \<Rightarrow> os" where
  "putenv str s = issue (Putenv str) (s\<lparr>environ := putenv_environ str (environ s)\<rparr>)"

definition setup_environment :: "string list option \<Rightarrow> os \<Rightarrow> os" where
  "setup_environment envp s =
     (case envp of
        None \<Rightarrow> clearenv s
      | Some vars \<Rightarrow> fold putenv vars (clearenv s))"

text \<open>
  The change of directory: on failure the message is built with \<open>asprintf\<close> (or
  is the fixed text when that fails), printed with \<open>perror\<close>, and standard error
  is flushed. No branch leaves the function.
\<close>

definition chdir_message :: "answers \<Rightarrow> string \<Rightarrow> string" where
  "chdir_message a cwd =
     (if asprintf_chdir_r a = - 1 then ''chdir()''
      else ''chdir('' @ [CHR 0x22] @ cwd @ [CHR 0x22] @ '')'')"

definition change_directory :: "answers \<Rightarrow> string \<Rightarrow> os \<Rightarrow> os" where
  "change_directory a cwd s =
     (if chdir_r a \<noteq> 0
      then (let error_message = chdir_message a cwd
            in issue Fflush_stderr (issue (Perror error_message) (issue (Chdir cwd) s)))
      else issue (Chdir cwd) (s\<lparr>wd := cwd\<rparr>))"

text \<open>The message printed when \<open>execvp\<close> returns, built the same way.\<close>

definition exec_message :: "answers \<Rightarrow> string \<Rightarrow> string" where
  "exec_message a cmd =
     (if asprintf_exec_r a = - 1 then ''exec()''
      else ''exec('' @ [CHR 0x22] @ cmd @ [CHR 0x22] @ '')'')"

text \<open>
  The child's continuation after the fork. The slave device named by \<open>devname\<close> is
  the terminal behind the master, which the child has closed by then.
\<close>

definition child_path ::
    "answers \<Rightarrow> string \<Rightarrow> string \<Rightarrow> string list option \<Rightarrow> string list option \<Rightarrow> c_int \<Rightarrow> os
      \<Rightarrow> outcome \<times> os" where
  "child_path a cmd cwd argv envp ptm s =
     (let term = ttys s ptm;
          s = issue Sigprocmask_unblock_all s;
          s = close_fd ptm s;
          s = issue Setsid s;
          pts = open_pts a;
          s = open_file (devname a) pts term s
      in if sint pts < 0 then (Exit (- 1), s)
         else
           let s = dup2 pts 0 s;
               s = dup2 pts 1 s;
               s = dup2 pts 2 s;
               s = close_inherited_fds (opendir_r a) s;
               s = setup_environment envp s;
               s = change_directory a cwd s;
               s = issue (Execvp cmd argv) s
           in if \<not> execvp_returns a then (Exec cmd argv, s)
              else
                let error_message = exec_message a cmd
                in (Exit 1, issue (Perror error_message) s))"

text \<open>The state of the child when it reaches the change of directory.\<close>

definition before_chdir :: "answers \<Rightarrow> string list option \<Rightarrow> c_int \<Rightarrow> os \<Rightarrow> os" where
  "before_chdir a envp ptm s =
     setup_environment envp
       (close_inherited_fds (opendir_r a)
          (dup2 (open_pts a) 2 (dup2 (open_pts a) 1 (dup2 (open_pts a) 0
             (open_file (devname a) (open_pts a) (ttys s ptm)
                (issue Setsid (close_fd ptm (issue Sigprocmask_unblock_all s))))))))"

definition grant_unlock_ptsname :: "answers \<Rightarrow> c_int \<Rightarrow> os \<Rightarrow> bool \<times> os" where
  "grant_unlock_ptsname a ptm s =
     (let s = issue (Grantpt ptm) s in
      if grantpt_r a \<noteq> 0 then (True, s)
      else
        let s = issue (Unlockpt ptm) s in
        if unlockpt_r a \<noteq> 0 then (True, s)
        else (ptsname_r_r a \<noteq> 0, issue (Ptsname_r ptm) s))"

text \<open>
  \<open>create_subprocess\<close>. The result is how the run ends, the value of
  \<open>*pProcessId\<close> afterwards, and the state of the process. \<open>tios0\<close> is the
  uninitialised content of \<open>tios\<close>.
\<close>

definition create_subprocess ::
    "answers \<Rightarrow> termios \<Rightarrow> string \<Rightarrow> string \<Rightarrow> string list option \<Rightarrow> string list option
      \<Rightarrow> c_int \<Rightarrow> jint \<Rightarrow> jint \<Rightarrow> jint \<Rightarrow> jint \<Rightarrow> os \<Rightarrow> outcome \<times> c_int \<times> os" where
  "create_subprocess a tios0 cmd cwd argv envp pProcessId rows columns cell_width cell_height s =
     (let ptm = open_ptmx a;
          s = open_file ''/dev/ptmx'' ptm (Some (ptmx_tty a)) s
      in if sint ptm < 0
         then (let (r, s) = throw_runtime_exception s ''Cannot open /dev/ptmx''
               in (Return r, pProcessId, s))
         else
           let (failed, s) = grant_unlock_ptsname a ptm s
           in if failed
              then (let (r, s) = throw_runtime_exception s
                                   ''Cannot grantpt()/unlockpt()/ptsname_r() on /dev/ptmx''
                    in (Return r, pProcessId, s))
              else
                let (tios, s) = tcgetattr ptm tios0 s;
                    tios = tios\<lparr>c_iflag := c_iflag tios OR IUTF8\<rparr>;
                    tios = tios\<lparr>c_iflag := c_iflag tios AND NOT (IXON OR IXOFF)\<rparr>;
                    s = tcsetattr ptm tios s;
                    sz = \<lparr> ws_row = ucast rows,
                           ws_col = ucast columns,
                           ws_xpixel = ucast (columns * cell_width),
                           ws_ypixel = ucast (rows * cell_height) \<rparr>;
                    s = ioctl_TIOCSWINSZ ptm sz s;
                    pid = fork_r a;
                    s = issue Fork s
                in if sint pid < 0
                   then (let (r, s) = throw_runtime_exception s ''Fork failed''
                         in (Return r, pProcessId, s))
                   else if 0 < sint pid
                   then (Return ptm, pid, s)
                   else (let (out, s) = child_path a cmd cwd argv envp ptm s
                         in (out, pProcessId, s)))"

text \<open>
  The state of the process at the fork when the master was opened, granted, unlocked
  and named: the descriptor \<open>ptm\<close> is open on the configured terminal.
\<close>

definition at_fork :: "answers \<Rightarrow> jint \<Rightarrow> jint \<Rightarrow> jint \<Rightarrow> jint \<Rightarrow> os \<Rightarrow> os" where
  "at_fork a rows columns cell_width cell_height s =
     s\<lparr>fds := insert (open_ptmx a) (fds s),
       ttys := (ttys s)(open_ptmx a \<mapsto>
          (ptmx_tty a)\<lparr>tty_termios := (tty_termios (ptmx_tty a))
              \<lparr>c_iflag := (c_iflag (tty_termios (ptmx_tty a)) OR IUTF8) AND NOT (IXON OR IXOFF)\<rparr>,
           tty_winsize := \<lparr> ws_row = ucast rows, ws_col = ucast columns,
              ws_xpixel = ucast (columns * cell_width),
              ws_ypixel = ucast (rows * cell_height) \<rparr>\<rparr>),
       calls := calls s @
         [Open ''/dev/ptmx'' (open_ptmx a), Grantpt (open_ptmx a), Unlockpt (open_ptmx a),
          Ptsname_r (open_ptmx a), Tcgetattr (open_ptmx a),
          Tcsetattr (open_ptmx a) ((tty_termios (ptmx_tty a))
              \<lparr>c_iflag := (c_iflag (tty_termios (ptmx_tty a)) OR IUTF8) AND NOT (IXON OR IXOFF)\<rparr>),
          Ioctl_TIOCSWINSZ (open_ptmx a) \<lparr> ws_row = ucast rows, ws_col = ucast columns,
              ws_xpixel = ucast (columns * cell_width),
              ws_ypixel = ucast (rows * cell_height) \<rparr>,
          Fork]\<rparr>"

text \<open>
  What \<open>waitpid\<close> stores for a process that ended through \<open>exit(n)\<close> or \<open>_exit(n)\<close>
  (Linux): the low eight bits of \<open>n\<close>, shifted above the signal byte.
\<close>

definition wait_status_of_exit :: "c_int \<Rightarrow> c_int" where
  "wait_status_of_exit n = push_bit 8 (n AND 0xff)"

section \<open>Marshalling: \<open>Java_com_termux_terminal_JNI_createSubprocess\<close>\<close>

text \<open>
  The C heap: the addresses of the blocks that are allocated and not yet freed, and
  the number of allocation requests made so far. A request gets the next address,
  or NULL when the allocator refuses it; \<open>fails\<close> tells which requests are refused.
\<close>

record heap =
  live :: "nat list"
  requests :: nat

definition malloc :: "(nat \<Rightarrow> bool) \<Rightarrow> heap \<Rightarrow> nat option \<times> heap" where
  "malloc fails h =
     (if fails (requests h) then (None, h\<lparr>requests := Suc (requests h)\<rparr>)
      else (Some (requests h),
            h\<lparr>live := live h @ [requests h], requests := Suc (requests h)\<rparr>))"

definition free :: "nat \<Rightarrow> heap \<Rightarrow> heap" where
  "free p h = h\<lparr>live := removeAll p (live h)\<rparr>"

text \<open>
  A C string is NULL or a block with its text; \<open>strdup\<close> allocates the copy. A
  marshalled vector is NULL or the block of the pointer array with its first \<open>size\<close>
  entries (the entry at index \<open>size\<close> is the NULL terminator).
\<close>

type_synonym cstr = "(nat \<times> string) option"
type_synonym vector = "(nat \<times> cstr list) option"

definition strdup :: "(nat \<Rightarrow> bool) \<Rightarrow> string \<Rightarrow> heap \<Rightarrow> cstr \<times> heap" where
  "strdup fails str h =
     (case malloc fails h of
        (None, h') \<Rightarrow> (None, h')
      | (Some p, h') \<Rightarrow> (Some (p, str), h'))"

text \<open>
  The body of the two \<open>for\<close> loops that fill a vector. An element of a Java string
  array is given by what \<open>GetStringUTFChars\<close> returns for it: its text, or NULL.
  On NULL the loop is left at once (the caller then throws); otherwise the text is
  duplicated and its JNI copy released.
\<close>

fun copy_strings ::
    "(nat \<Rightarrow> bool) \<Rightarrow> string option list \<Rightarrow> cstr list \<Rightarrow> heap \<Rightarrow> cstr list option \<times> heap" where
  "copy_strings fails [] filled h = (Some filled, h)"
| "copy_strings fails (None # js) filled h = (None, h)"
| "copy_strings fails (Some utf8 # js) filled h =
     (let (copy, h) = strdup fails utf8 h
      in copy_strings fails js (filled @ [copy]) h)"

text \<open>
  \<open>for (char** tmp = v; *tmp; ++tmp) free(*tmp); free(v);\<close>: the entries up to the
  first NULL are freed, then the array.
\<close>

fun free_entries :: "cstr list \<Rightarrow> heap \<Rightarrow> heap" where
  "free_entries [] h = h"
| "free_entries (None # es) h = h"
| "free_entries (Some (p, str) # es) h = free_entries es (free p h)"

definition free_vector :: "vector \<Rightarrow> heap \<Rightarrow> heap" where
  "free_vector v h =
     (case v of
        None \<Rightarrow> h
      | Some (p, entries) \<Rightarrow> free p (free_entries entries h))"

text \<open>The addresses of the blocks that the entries of a vector point to.\<close>

fun addresses :: "cstr list \<Rightarrow> nat list" where
  "addresses [] = []"
| "addresses (None # es) = addresses es"
| "addresses (Some (p, str) # es) = p # addresses es"

text \<open>The strings a callee reads from a vector: those before the first NULL.\<close>

fun strings_of_entries :: "cstr list \<Rightarrow> string list" where
  "strings_of_entries [] = []"
| "strings_of_entries (None # es) = []"
| "strings_of_entries (Some (p, str) # es) = str # strings_of_entries es"

definition strings_of :: "vector \<Rightarrow> string list option" where
  "strings_of v = map_option (\<lambda>(p, entries). strings_of_entries entries) v"

definition GetArrayLength :: "string option list option \<Rightarrow> nat" where
  "GetArrayLength array = (case array of None \<Rightarrow> 0 | Some js \<Rightarrow> length js)"

text \<open>
  The JNI entry point. \<open>args\<close> and \<open>envVars\<close> are the Java arrays (or null);
  \<open>cmd\<close> and \<open>cwd\<close> are the texts of the two Java strings, whose conversion the
  function does not check; \<open>critical\<close> tells whether \<open>GetPrimitiveArrayCritical\<close>
  succeeds; \<open>processId\<close> is the first element of \<open>processIdArray\<close>. The result is
  how the run ends, the first element of \<open>processIdArray\<close>, the heap and the
  process state. A run that ends in the child never comes back from
  \<open>create_subprocess\<close>.
\<close>

definition Java_com_termux_terminal_JNI_createSubprocess ::
    "(nat \<Rightarrow> bool) \<Rightarrow> answers \<Rightarrow> termios \<Rightarrow> bool \<Rightarrow> string \<Rightarrow> string
      \<Rightarrow> string option list option \<Rightarrow> string option list option \<Rightarrow> jint
      \<Rightarrow> jint \<Rightarrow> jint \<Rightarrow> jint \<Rightarrow> jint \<Rightarrow> heap \<Rightarrow> os \<Rightarrow> outcome \<times> jint \<times> heap \<times> os" where
  "Java_com_termux_terminal_JNI_createSubprocess fails a tios0 critical cmd cwd args envVars
       processId rows columns cell_width cell_height h s =
     (let thrown = (\<lambda>message h s.
                      let (r, s) = throw_runtime_exception s message
                      in (Return r, processId, h, s));
          marshalled_argv =
            (if 0 < GetArrayLength args
             then (case malloc fails h of
                     (None, h) \<Rightarrow> Inl (''Couldn't allocate argv array'', h)
                   | (Some p, h) \<Rightarrow>
                       (case copy_strings fails (the args) [] h of
                          (None, h) \<Rightarrow> Inl (''GetStringUTFChars() failed for argv'', h)
                        | (Some entries, h) \<Rightarrow> Inr (Some (p, entries), h)))
             else Inr (None, h))
      in case marshalled_argv of
           Inl (message, h) \<Rightarrow> thrown message h s
         | Inr (argv, h) \<Rightarrow>
            (let marshalled_envp =
                   (if 0 < GetArrayLength envVars
                    then (case malloc fails h of
                            (None, h) \<Rightarrow>
                              Inl (''malloc() for envp array failed'', free_vector argv h)
                          | (Some p, h) \<Rightarrow>
                              (case copy_strings fails (the envVars) [] h of
                                 (None, h) \<Rightarrow> Inl (''GetStringUTFChars() failed for env'', h)
                               | (Some entries, h) \<Rightarrow> Inr (Some (p, entries), h)))
                    else Inr (None, h))
             in case marshalled_envp of
                  Inl (message, h) \<Rightarrow> thrown message h s
                | Inr (envp, h) \<Rightarrow>
                   (case create_subprocess a tios0 cmd cwd (strings_of argv) (strings_of envp)
                           0 rows columns cell_width cell_height s of
                      (Return ptm, procId, s) \<Rightarrow>
                        (let h = free_vector argv h;
                             h = free_vector envp h
                         in if \<not> critical
                            then thrown
                              ''JNI call GetPrimitiveArrayCritical(processIdArray, &isCopy) failed'' h s
                            else (Return ptm, procId, h, s))
                    | (out, procId, s) \<Rightarrow> (out, processId, h, s))))"

text \<open>
  A heap with nothing allocated, and an allocator that refuses nothing.
\<close>

definition heap0 :: heap where
  "heap0 = \<lparr> live = [], requests = 0 \<rparr>"

definition never :: "nat \<Rightarrow> bool" where
  "never n = False"

section \<open>Sample runs\<close>

text \<open>
  A terminal in its initial state, a process with the three standard descriptors
  and one more open file, and one set of answers of the operating system in which
  every call succeeds and the parent is followed.
\<close>

definition tty0 :: tty where
  "tty0 = \<lparr> tty_termios = \<lparr> c_iflag = 0x500, c_oflag = 0x5, c_cflag = 0xbf, c_lflag = 0x8a3b \<rparr>,
            tty_winsize = \<lparr> ws_row = 0, ws_col = 0, ws_xpixel = 0, ws_ypixel = 0 \<rparr> \<rparr>"

definition os0 :: os where
  "os0 = \<lparr> fds = {0, 1, 2, 7},
           ttys = Map.empty,
           environ = [''PATH=/system/bin'', ''ANDROID_ROOT=/system''],
           wd = ''/'',
           calls = [] \<rparr>"

definition answers0 :: answers where
  "answers0 = \<lparr> open_ptmx = 40, grantpt_r = 0, unlockpt_r = 0, ptsname_r_r = 0,
                devname = ''/dev/pts/3'', ptmx_tty = tty0, fork_r = 4711, open_pts = 3,
                opendir_r = Some (4, [''.'', ''..'', ''0'', ''1'', ''2'', ''3'', ''4'', ''7'']),
                chdir_r = 0, asprintf_chdir_r = 12, asprintf_exec_r = 10,
                execvp_returns = False \<rparr>"

section \<open>Properties of the wait-status decoding\<close>

lemma sint_small: "uint (w::32 word) < 2147483648 \<Longrightarrow> sint w = uint w"
proof -
  assume a: "uint w < 2147483648"
  have b: "(0::int) \<le> uint w" by (rule uint_ge_0)
  have c: "- (2 ^ 31) \<le> (0::int)" by simp
  have "signed_take_bit 31 (uint w) = uint w"
  proof (rule signed_take_bit_int_eq_self)
    show "- (2 ^ 31) \<le> uint w" using c b by (rule order_trans)
    show "uint w < 2 ^ 31" using a by simp
  qed
  then show ?thesis by (simp add: sint_uint)
qed

lemma and7f: "(s::32 word) AND 0x7f = take_bit 7 s"
proof -
  have "(0x7f::32 word) = mask 7" by (simp add: mask_eq_exp_minus_1)
  then show ?thesis by (simp add: take_bit_eq_mask)
qed

lemma uint_WTERMSIG: "uint (WTERMSIG s) = uint s mod 128"
  unfolding WTERMSIG_def and7f unsigned_take_bit_eq by (simp add: take_bit_eq_mod)

lemma sint_WTERMSIG: "sint (WTERMSIG s) = uint s mod 128"
proof -
  have "uint (WTERMSIG s) < 2147483648" by (simp add: uint_WTERMSIG) 
  then show ?thesis using uint_WTERMSIG sint_small by simp
qed

lemma andff00: "drop_bit 8 ((s::32 word) AND 0xff00) = take_bit 8 (drop_bit 8 s)"
proof -
  have "(0xff00::32 word) = push_bit 8 (mask 8)" by (simp add: mask_eq_exp_minus_1)
  then have "drop_bit 8 (s AND 0xff00) = drop_bit 8 s AND mask 8"
    by (simp add: mask_eq_exp_minus_1)
  then show ?thesis by (simp add: take_bit_eq_mask)
qed

lemma uint_WEXITSTATUS: "uint (WEXITSTATUS s) = (uint s div 256) mod 256"
proof -
  have "take_bit 32 (uint s) = uint s" by (rule bintr_uint) simp
  then show ?thesis
    unfolding WEXITSTATUS_def andff00 unsigned_take_bit_eq unsigned_drop_bit_eq
    by (simp add: take_bit_eq_mod drop_bit_eq_div)
qed

lemma sint_WEXITSTATUS: "sint (WEXITSTATUS s) = (uint s div 256) mod 256"
proof -
  have "uint (WEXITSTATUS s) < 2147483648" by (simp add: uint_WEXITSTATUS) 
  then show ?thesis using uint_WEXITSTATUS sint_small by simp
qed

lemma uint_succ_mod: "uint ((s::32 word) + 1) mod 128 = (uint s + 1) mod 128"
proof -
  have "uint (s + 1) = (uint s + 1) mod 2 ^ 32" by (simp add: uint_word_ariths)
  moreover have "((uint s + 1) mod 2 ^ 32) mod 128 = (uint s + 1) mod 128"
    by (rule mod_mod_cancel) simp
  ultimately show ?thesis by simp
qed

lemma WIFEXITED_iff: "WIFEXITED s \<longleftrightarrow> uint s mod 128 = 0"
proof -
  have "WTERMSIG s = 0 \<longleftrightarrow> uint (WTERMSIG s) = 0" by (simp only: uint_0_iff)
  then show ?thesis by (simp add: WIFEXITED_def uint_WTERMSIG)
qed

lemma succ_mod_128:
  fixes k :: int
  shows "2 \<le> (k + 1) mod 128 \<longleftrightarrow> 1 \<le> k mod 128 \<and> k mod 128 \<le> 126"
proof -
  define r where "r = k mod 128"
  have r: "0 \<le> r" "r < 128" by (simp_all add: r_def)
  have "(k + 1) mod 128 = (r + 1) mod 128"
    unfolding r_def by (simp add: mod_add_left_eq)
  also have "\<dots> = (if r = 127 then 0 else r + 1)"
    using r by (simp add: mod_pos_pos_trivial)
  finally have "(k + 1) mod 128 = (if r = 127 then 0 else r + 1)" .
  then show ?thesis unfolding r_def [symmetric] using r by auto
qed

lemma WIFSIGNALED_iff: "WIFSIGNALED s \<longleftrightarrow> 1 \<le> uint s mod 128 \<and> uint s mod 128 \<le> 126"
  by (simp add: WIFSIGNALED_def sint_WTERMSIG uint_succ_mod succ_mod_128)

lemma sint_neg_small:
  assumes "1 \<le> uint (w::32 word)" "uint w \<le> 126"
  shows "sint (- w) = - uint w"
proof -
  have "sint w = uint w" using assms by (simp add: sint_small)
  then have "sint (- w) = signed_take_bit 31 (- uint w)" by (simp add: sint_word_minus)
  also have "\<dots> = - uint w"
  proof (rule signed_take_bit_int_eq_self)
    show "- (2 ^ 31) \<le> - uint w" using assms by simp
    show "- uint w < 2 ^ 31" using assms by simp
  qed
  finally show ?thesis .
qed

lemma waitFor_sint:
  "sint (Java_com_termux_terminal_JNI_waitFor waitpid pid) =
     (if WIFEXITED (waitpid pid) then uint (waitpid pid) div 256 mod 256
      else if WIFSIGNALED (waitpid pid) then - (uint (waitpid pid) mod 128)
      else 0)"
proof -
  have "sint (- WTERMSIG (waitpid pid)) = - (uint (waitpid pid) mod 128)"
    if "WIFSIGNALED (waitpid pid)"
    using that sint_neg_small [of "WTERMSIG (waitpid pid)"]
    by (simp add: WIFSIGNALED_iff uint_WTERMSIG)
  then show ?thesis
    by (simp add: Java_com_termux_terminal_JNI_waitFor_def Let_def sint_WEXITSTATUS)
qed

lemma not_both: "WIFEXITED s \<Longrightarrow> \<not> WIFSIGNALED s"
  by (simp add: WIFEXITED_iff WIFSIGNALED_iff)

text \<open>
  Claim C1. For every process id and every wait status the operating system stores,
  \<open>waitFor\<close> yields \<open>Exited code\<close> when the status reports a normal exit with
  that code, \<open>Signaled sig\<close> when it reports termination by the signal \<open>sig\<close>,
  and the default \<open>Exited 0\<close> for every other status.
\<close>

theorem waitFor_outcome:
  "(WIFEXITED (waitpid pid) \<longrightarrow>
      exit_outcome (Java_com_termux_terminal_JNI_waitFor waitpid pid)
        = Exited (sint (WEXITSTATUS (waitpid pid))))
   \<and> (WIFSIGNALED (waitpid pid) \<longrightarrow>
      exit_outcome (Java_com_termux_terminal_JNI_waitFor waitpid pid)
        = Signaled (sint (WTERMSIG (waitpid pid))))
   \<and> (\<not> WIFEXITED (waitpid pid) \<and> \<not> WIFSIGNALED (waitpid pid) \<longrightarrow>
      exit_outcome (Java_com_termux_terminal_JNI_waitFor waitpid pid) = Exited 0)"
proof (intro conjI impI)
  assume "WIFEXITED (waitpid pid)"
  then show "exit_outcome (Java_com_termux_terminal_JNI_waitFor waitpid pid)
        = Exited (sint (WEXITSTATUS (waitpid pid)))"
    by (simp add: exit_outcome_def waitFor_sint sint_WEXITSTATUS)
next
  assume s: "WIFSIGNALED (waitpid pid)"
  then have "\<not> WIFEXITED (waitpid pid)" using not_both by blast
  with s show "exit_outcome (Java_com_termux_terminal_JNI_waitFor waitpid pid)
        = Signaled (sint (WTERMSIG (waitpid pid)))"
    by (simp add: exit_outcome_def waitFor_sint sint_WTERMSIG WIFSIGNALED_iff)
next
  assume "\<not> WIFEXITED (waitpid pid) \<and> \<not> WIFSIGNALED (waitpid pid)"
  then show "exit_outcome (Java_com_termux_terminal_JNI_waitFor waitpid pid) = Exited 0"
    by (simp add: exit_outcome_def waitFor_sint)
qed

theorem waitFor_outcome_witness:
  "WIFEXITED 0x7f00 \<and> exit_outcome (Java_com_termux_terminal_JNI_waitFor (\<lambda>_. 0x7f00) 4711) = Exited 127
   \<and> WIFSIGNALED 9 \<and> exit_outcome (Java_com_termux_terminal_JNI_waitFor (\<lambda>_. 9) 4711) = Signaled 9
   \<and> \<not> WIFEXITED 0x137f \<and> \<not> WIFSIGNALED 0x137f
   \<and> exit_outcome (Java_com_termux_terminal_JNI_waitFor (\<lambda>_. 0x137f) 4711) = Exited 0"
  using waitFor_outcome [of "\<lambda>_. 0x7f00" 4711] waitFor_outcome [of "\<lambda>_. 9" 4711]
    waitFor_outcome [of "\<lambda>_. 0x137f" 4711]
  by (simp add: WIFEXITED_iff WIFSIGNALED_iff sint_WEXITSTATUS sint_WTERMSIG)

text \<open>
  Claim C10. The integer returned by \<open>waitFor\<close> is negative exactly when the status
  reports termination by a signal, and is then the negated signal number; a normal
  exit and the default give a nonnegative value, the exit code or 0. So the value
  returned for a signalled process differs from every value returned otherwise.
\<close>

theorem waitFor_sign:
  "(sint (Java_com_termux_terminal_JNI_waitFor waitpid pid) < 0 \<longleftrightarrow> WIFSIGNALED (waitpid pid))
   \<and> (WIFSIGNALED (waitpid pid) \<longrightarrow>
        sint (Java_com_termux_terminal_JNI_waitFor waitpid pid) = - sint (WTERMSIG (waitpid pid)))
   \<and> (\<not> WIFSIGNALED (waitpid pid) \<longrightarrow>
        0 \<le> sint (Java_com_termux_terminal_JNI_waitFor waitpid pid)
        \<and> sint (Java_com_termux_terminal_JNI_waitFor waitpid pid)
            = (if WIFEXITED (waitpid pid) then sint (WEXITSTATUS (waitpid pid)) else 0))
   \<and> (WIFSIGNALED (waitpid pid) \<and> \<not> WIFSIGNALED (waitpid' pid') \<longrightarrow>
        Java_com_termux_terminal_JNI_waitFor waitpid pid
          \<noteq> Java_com_termux_terminal_JNI_waitFor waitpid' pid')"
proof -
  let ?r = "sint (Java_com_termux_terminal_JNI_waitFor waitpid pid)"
  let ?s = "waitpid pid"
  have neg: "?r < 0 \<longleftrightarrow> WIFSIGNALED ?s"
    by (auto simp: waitFor_sint WIFSIGNALED_iff WIFEXITED_iff)
  have neg': "sint (Java_com_termux_terminal_JNI_waitFor waitpid' pid') < 0
      \<longleftrightarrow> WIFSIGNALED (waitpid' pid')"
    by (auto simp: waitFor_sint WIFSIGNALED_iff WIFEXITED_iff)
  have sig: "WIFSIGNALED ?s \<Longrightarrow> ?r = - sint (WTERMSIG ?s)"
    using not_both [of ?s] by (auto simp: waitFor_sint sint_WTERMSIG)
  have ex: "\<not> WIFSIGNALED ?s \<Longrightarrow>
      0 \<le> ?r \<and> ?r = (if WIFEXITED ?s then sint (WEXITSTATUS ?s) else 0)"
    by (simp add: waitFor_sint sint_WEXITSTATUS)
  have dist: "WIFSIGNALED ?s \<and> \<not> WIFSIGNALED (waitpid' pid') \<Longrightarrow>
      Java_com_termux_terminal_JNI_waitFor waitpid pid
        \<noteq> Java_com_termux_terminal_JNI_waitFor waitpid' pid'"
    using neg neg' by metis
  from neg sig ex dist show ?thesis by blast
qed

theorem waitFor_sign_witness:
  "sint (Java_com_termux_terminal_JNI_waitFor (\<lambda>_. 0x8b) 1) = - 11
   \<and> WIFSIGNALED 0x8b
   \<and> sint (Java_com_termux_terminal_JNI_waitFor (\<lambda>_. 0x0100) 1) = 1
   \<and> \<not> WIFSIGNALED 0x0100 \<and> WIFEXITED 0x0100
   \<and> Java_com_termux_terminal_JNI_waitFor (\<lambda>_. 0x8b) 1
        \<noteq> Java_com_termux_terminal_JNI_waitFor (\<lambda>_. 0x0100) 1"
  using waitFor_sign [of "\<lambda>_. 0x8b" 1 "\<lambda>_. 0x0100" 1] waitFor_sign [of "\<lambda>_. 0x0100" 1 "\<lambda>_. 0x8b" 1]
  by (simp add: WIFEXITED_iff WIFSIGNALED_iff sint_WEXITSTATUS sint_WTERMSIG)

section \<open>Properties of the window size\<close>

lemma uint_of_nonneg_sint:
  assumes "0 \<le> sint (w::32 word)" shows "uint w = sint w"
proof -
  have "sint w < 2 ^ 32" using sint_lt [of w] by simp
  then have "take_bit 32 (sint w) = sint w"
    using assms by (simp add: take_bit_int_eq_self)
  then show ?thesis using uint_sint [of w] by simp
qed

lemma uint_ucast_16: "uint (ucast (w::32 word) :: 16 word) = uint w mod 65536"
  by (simp add: unsigned_ucast_eq take_bit_eq_mod)

lemma uint_ucast_small:
  assumes "1 \<le> sint (w::32 word)" "sint w \<le> 65535"
  shows "uint (ucast w :: 16 word) = sint w"
proof -
  have "uint w = sint w" using assms by (simp add: uint_of_nonneg_sint)
  then show ?thesis using assms by (simp add: uint_ucast_16)
qed

lemma uint_ucast_mult:
  assumes "0 \<le> sint (x::32 word)" "0 \<le> sint (y::32 word)"
  shows "uint (ucast (x * y) :: 16 word) = (sint x * sint y) mod 65536"
proof -
  have "uint (x * y) = (uint x * uint y) mod 2 ^ 32" by (simp add: uint_word_ariths)
  moreover have "((uint x * uint y) mod 2 ^ 32) mod 65536 = (uint x * uint y) mod 65536"
    by (rule mod_mod_cancel) simp
  ultimately have "uint (ucast (x * y) :: 16 word) = (uint x * uint y) mod 65536"
    by (simp add: uint_ucast_16)
  then show ?thesis using assms by (simp add: uint_of_nonneg_sint)
qed

lemma setPtyWindowSize_readback:
  "ttys s fd = Some t \<Longrightarrow>
   ioctl_TIOCGWINSZ fd (Java_com_termux_terminal_JNI_setPtyWindowSize s fd rows cols cw ch) =
     Some \<lparr> ws_row = ucast rows, ws_col = ucast cols,
            ws_xpixel = ucast (cols * cw), ws_ypixel = ucast (rows * ch) \<rparr>"
  by (simp add: Java_com_termux_terminal_JNI_setPtyWindowSize_def ioctl_TIOCSWINSZ_def
      ioctl_TIOCGWINSZ_def issue_def Let_def)

lemma create_subprocess_parent:
  assumes "0 \<le> sint (open_ptmx a)" "grantpt_r a = 0" "unlockpt_r a = 0" "ptsname_r_r a = 0"
    "0 < sint (fork_r a)"
  shows "create_subprocess a tios0 cmd cwd argv envp p rows cols cw ch s =
    (Return (open_ptmx a), fork_r a, at_fork a rows cols cw ch s)"
  using assms
  by (simp add: create_subprocess_def Let_def grant_unlock_ptsname_def tcgetattr_def
      tcsetattr_def ioctl_TIOCSWINSZ_def open_file_def issue_def at_fork_def)

lemma create_subprocess_child:
  assumes "0 \<le> sint (open_ptmx a)" "grantpt_r a = 0" "unlockpt_r a = 0" "ptsname_r_r a = 0"
    "fork_r a = 0"
  shows "create_subprocess a tios0 cmd cwd argv envp p rows cols cw ch s =
    (fst (child_path a cmd cwd argv envp (open_ptmx a) (at_fork a rows cols cw ch s)), p,
     snd (child_path a cmd cwd argv envp (open_ptmx a) (at_fork a rows cols cw ch s)))"
  using assms
  by (simp add: create_subprocess_def Let_def grant_unlock_ptsname_def tcgetattr_def
      tcsetattr_def ioctl_TIOCSWINSZ_def open_file_def issue_def at_fork_def split: prod.split)

text \<open>
  Claim C4. For rows, columns, cell width and cell height in 1..65535 whose pixel
  products stay within a 32-bit signed integer, \<open>setPtyWindowSize\<close> gives the
  terminal the record with row count \<open>rows\<close>, column count \<open>columns\<close>, pixel
  width \<open>columns * cell_width\<close> and pixel height \<open>rows * cell_height\<close>, each
  taken modulo \<open>2 ^ 16\<close>; the terminal that \<open>create_subprocess\<close> hands to the
  parent has the same record.
\<close>

theorem window_size_mapping:
  assumes rows: "1 \<le> sint rows" "sint rows \<le> 65535"
    and cols: "1 \<le> sint cols" "sint cols \<le> 65535"
    and cw: "1 \<le> sint cell_width" "sint cell_width \<le> 65535"
    and ch: "1 \<le> sint cell_height" "sint cell_height \<le> 65535"
    and safe: "sint cols * sint cell_width \<le> 2147483647" "sint rows * sint cell_height \<le> 2147483647"
    and tty: "ttys s fd = Some t"
    and parent: "0 \<le> sint (open_ptmx a)" "grantpt_r a = 0" "unlockpt_r a = 0" "ptsname_r_r a = 0"
      "0 < sint (fork_r a)"
  shows "\<exists>sz.
      ioctl_TIOCGWINSZ fd
         (Java_com_termux_terminal_JNI_setPtyWindowSize s fd rows cols cell_width cell_height) = Some sz
    \<and> ioctl_TIOCGWINSZ (open_ptmx a)
         (snd (snd (create_subprocess a tios0 cmd cwd argv envp pProcessId
                      rows cols cell_width cell_height s0))) = Some sz
    \<and> uint (ws_row sz) = sint rows
    \<and> uint (ws_col sz) = sint cols
    \<and> uint (ws_xpixel sz) = (sint cols * sint cell_width) mod 2 ^ 16
    \<and> uint (ws_ypixel sz) = (sint rows * sint cell_height) mod 2 ^ 16"
proof -
  let ?sz = "\<lparr> ws_row = ucast rows, ws_col = ucast cols,
      ws_xpixel = ucast (cols * cell_width), ws_ypixel = ucast (rows * cell_height) \<rparr>"
  have 1: "ioctl_TIOCGWINSZ fd
      (Java_com_termux_terminal_JNI_setPtyWindowSize s fd rows cols cell_width cell_height) = Some ?sz"
    using tty by (rule setPtyWindowSize_readback)
  have 2: "ioctl_TIOCGWINSZ (open_ptmx a)
         (snd (snd (create_subprocess a tios0 cmd cwd argv envp pProcessId
                      rows cols cell_width cell_height s0))) = Some ?sz"
    by (simp add: create_subprocess_parent [OF parent] ioctl_TIOCGWINSZ_def at_fork_def)
  have 3: "uint (ws_row ?sz) = sint rows" "uint (ws_col ?sz) = sint cols"
    using rows cols by (simp_all add: uint_ucast_small)
  have 4: "uint (ws_xpixel ?sz) = (sint cols * sint cell_width) mod 2 ^ 16"
    using cols cw by (simp add: uint_ucast_mult)
  have 5: "uint (ws_ypixel ?sz) = (sint rows * sint cell_height) mod 2 ^ 16"
    using rows ch by (simp add: uint_ucast_mult)
  from 1 2 3 4 5 show ?thesis by blast
qed

theorem window_size_mapping_witness:
  "\<exists>sz. ioctl_TIOCGWINSZ 40
           (Java_com_termux_terminal_JNI_setPtyWindowSize
              (os0\<lparr>ttys := [40 \<mapsto> tty0]\<rparr>) 40 24 300 300 24) = Some sz
    \<and> ioctl_TIOCGWINSZ 40
         (snd (snd (create_subprocess answers0 (tty_termios tty0) ''/system/bin/sh'' ''/'' (Some [''-sh''])
                      (Some [''FOO=bar'']) 0 24 300 300 24 os0))) = Some sz
    \<and> uint (ws_row sz) = 24
    \<and> uint (ws_col sz) = 300
    \<and> uint (ws_xpixel sz) = 24464
    \<and> uint (ws_ypixel sz) = 576"
  using window_size_mapping [of 24 300 300 24 "os0\<lparr>ttys := [40 \<mapsto> tty0]\<rparr>" 40 tty0 answers0
      "tty_termios tty0" "''/system/bin/sh''" "''/''" "Some [''-sh'']" "Some [''FOO=bar'']" 0 os0]
  by (simp add: answers0_def os0_def)

section \<open>Properties of the UTF-8 mode switch\<close>

lemma IUTF8_absorb: "(x OR IUTF8) AND IUTF8 = IUTF8"
  by (simp add: and.commute)

lemma IUTF8_nonzero: "IUTF8 \<noteq> 0"
  by (simp add: IUTF8_def)

lemma setPtyUTF8Mode_tty:
  assumes "ttys s fd = Some t"
  shows "Java_com_termux_terminal_JNI_setPtyUTF8Mode tios0 s fd =
     (if c_iflag (tty_termios t) AND IUTF8 = 0
      then s\<lparr>ttys := (ttys s)(fd \<mapsto>
                 t\<lparr>tty_termios := (tty_termios t)\<lparr>c_iflag := c_iflag (tty_termios t) OR IUTF8\<rparr>\<rparr>),
             calls := calls s @ [Tcgetattr fd,
                 Tcsetattr fd ((tty_termios t)\<lparr>c_iflag := c_iflag (tty_termios t) OR IUTF8\<rparr>)]\<rparr>
      else s\<lparr>calls := calls s @ [Tcgetattr fd]\<rparr>)"
  using assms
  by (simp add: Java_com_termux_terminal_JNI_setPtyUTF8Mode_def tcgetattr_def tcsetattr_def
      issue_def)

text \<open>
  Claim C7. On a terminal descriptor, \<open>setPtyUTF8Mode\<close> writes the flags back, with
  \<open>IUTF8\<close> set, only when \<open>IUTF8\<close> was clear; a second call right after the first
  writes nothing and leaves the terminals as they are.
\<close>

theorem setPtyUTF8Mode_idempotent:
  assumes "ttys s fd = Some t"
  shows "flag_writes (Java_com_termux_terminal_JNI_setPtyUTF8Mode tios0 s fd) =
           flag_writes s @
             (if c_iflag (tty_termios t) AND IUTF8 = 0
              then [Tcsetattr fd ((tty_termios t)\<lparr>c_iflag := c_iflag (tty_termios t) OR IUTF8\<rparr>)]
              else [])
       \<and> flag_writes (Java_com_termux_terminal_JNI_setPtyUTF8Mode tios1
             (Java_com_termux_terminal_JNI_setPtyUTF8Mode tios0 s fd) fd) =
           flag_writes (Java_com_termux_terminal_JNI_setPtyUTF8Mode tios0 s fd)
       \<and> ttys (Java_com_termux_terminal_JNI_setPtyUTF8Mode tios1
             (Java_com_termux_terminal_JNI_setPtyUTF8Mode tios0 s fd) fd) =
           ttys (Java_com_termux_terminal_JNI_setPtyUTF8Mode tios0 s fd)"
proof -
  let ?s1 = "Java_com_termux_terminal_JNI_setPtyUTF8Mode tios0 s fd"
  have first: "flag_writes ?s1 = flag_writes s @
             (if c_iflag (tty_termios t) AND IUTF8 = 0
              then [Tcsetattr fd ((tty_termios t)\<lparr>c_iflag := c_iflag (tty_termios t) OR IUTF8\<rparr>)]
              else [])"
    by (simp add: setPtyUTF8Mode_tty [OF assms] flag_writes_def)
  obtain t' where t': "ttys ?s1 fd = Some t'" "c_iflag (tty_termios t') AND IUTF8 \<noteq> 0"
    by (cases "c_iflag (tty_termios t) AND IUTF8 = 0")
      (simp_all add: setPtyUTF8Mode_tty [OF assms] assms IUTF8_absorb IUTF8_nonzero)
  have second: "Java_com_termux_terminal_JNI_setPtyUTF8Mode tios1 ?s1 fd
      = ?s1\<lparr>calls := calls ?s1 @ [Tcgetattr fd]\<rparr>"
    using t'(2) by (simp add: setPtyUTF8Mode_tty [OF t'(1)])
  have "flag_writes (Java_com_termux_terminal_JNI_setPtyUTF8Mode tios1 ?s1 fd) = flag_writes ?s1"
    by (simp add: second flag_writes_def)
  moreover have "ttys (Java_com_termux_terminal_JNI_setPtyUTF8Mode tios1 ?s1 fd) = ttys ?s1"
    by (simp add: second)
  ultimately show ?thesis using first by simp
qed

theorem setPtyUTF8Mode_idempotent_witness:
  "flag_writes (Java_com_termux_terminal_JNI_setPtyUTF8Mode (tty_termios tty0)
       (os0\<lparr>ttys := [40 \<mapsto> tty0]\<rparr>) 40)
     = [Tcsetattr 40 ((tty_termios tty0)\<lparr>c_iflag := 0x4500\<rparr>)]
   \<and> flag_writes (Java_com_termux_terminal_JNI_setPtyUTF8Mode (tty_termios tty0)
        (Java_com_termux_terminal_JNI_setPtyUTF8Mode (tty_termios tty0)
           (os0\<lparr>ttys := [40 \<mapsto> tty0]\<rparr>) 40) 40)
     = [Tcsetattr 40 ((tty_termios tty0)\<lparr>c_iflag := 0x4500\<rparr>)]"
  using setPtyUTF8Mode_idempotent [of "os0\<lparr>ttys := [40 \<mapsto> tty0]\<rparr>" 40 tty0
      "tty_termios tty0" "tty_termios tty0"]
  by (simp add: os0_def tty0_def flag_writes_def IUTF8_def)

section \<open>The error path after the master is open\<close>

lemma grant_unlock_ptsname_failed:
  assumes "grantpt_r a \<noteq> 0 \<or> unlockpt_r a \<noteq> 0 \<or> ptsname_r_r a \<noteq> 0"
  shows "fst (grant_unlock_ptsname a ptm s)"
    and "fds (snd (grant_unlock_ptsname a ptm s)) = fds s"
    and "\<exists>new. calls (snd (grant_unlock_ptsname a ptm s)) = calls s @ new
           \<and> set new \<subseteq> {Grantpt ptm, Unlockpt ptm, Ptsname_r ptm}"
  using assms by (auto simp: grant_unlock_ptsname_def Let_def issue_def)

text \<open>
  Claim C9. When the master was opened and granting, unlocking or naming the slave
  fails, \<open>create_subprocess\<close> throws and returns \<open>-1\<close> to its caller; the master
  descriptor is still open in the calling process, no \<open>close\<close> was issued for it,
  and no fork took place.
\<close>

theorem master_left_open_on_unlock_failure:
  assumes "0 \<le> sint (open_ptmx a)"
    and "grantpt_r a \<noteq> 0 \<or> unlockpt_r a \<noteq> 0 \<or> ptsname_r_r a \<noteq> 0"
  shows "\<exists>s' new.
      create_subprocess a tios0 cmd cwd argv envp pProcessId rows columns cell_width cell_height s
        = (Return (- 1), pProcessId, s')
    \<and> open_ptmx a \<in> fds s'
    \<and> calls s' = calls s @ new
    \<and> Close (open_ptmx a) \<notin> set new
    \<and> Fork \<notin> set new
    \<and> last new = ThrowNew ''Cannot grantpt()/unlockpt()/ptsname_r() on /dev/ptmx''"
proof -
  let ?ptm = "open_ptmx a"
  let ?s1 = "open_file ''/dev/ptmx'' ?ptm (Some (ptmx_tty a)) s"
  let ?g = "grant_unlock_ptsname a ?ptm ?s1"
  let ?s' = "issue (ThrowNew ''Cannot grantpt()/unlockpt()/ptsname_r() on /dev/ptmx'') (snd ?g)"
  have s1: "fds ?s1 = insert ?ptm (fds s)" "calls ?s1 = calls s @ [Open ''/dev/ptmx'' ?ptm]"
    using assms(1) by (simp_all add: open_file_def issue_def)
  have failed: "fst ?g" and fds_g: "fds (snd ?g) = fds ?s1"
    using grant_unlock_ptsname_failed [OF assms(2)] by blast+
  obtain mid where mid: "calls (snd ?g) = calls ?s1 @ mid"
      "set mid \<subseteq> {Grantpt ?ptm, Unlockpt ?ptm, Ptsname_r ?ptm}"
    using grant_unlock_ptsname_failed(3) [OF assms(2)] by blast
  have run: "create_subprocess a tios0 cmd cwd argv envp pProcessId rows columns cell_width cell_height s
        = (Return (- 1), pProcessId, ?s')"
  proof -
    obtain sg where g: "?g = (True, sg)" using failed by (cases ?g) auto
    show ?thesis
      using assms(1) by (simp add: create_subprocess_def Let_def throw_runtime_exception_def g)
  qed
  let ?new = "Open ''/dev/ptmx'' ?ptm # mid
      @ [ThrowNew ''Cannot grantpt()/unlockpt()/ptsname_r() on /dev/ptmx'']"
  have "open_ptmx a \<in> fds ?s'" by (simp add: issue_def fds_g s1)
  moreover have "calls ?s' = calls s @ ?new" by (simp add: issue_def mid s1)
  moreover have "Close ?ptm \<notin> set ?new" "Fork \<notin> set ?new" using mid(2) by auto
  moreover have "last ?new = ThrowNew ''Cannot grantpt()/unlockpt()/ptsname_r() on /dev/ptmx''"
    by simp
  ultimately show ?thesis using run by blast
qed

theorem master_left_open_on_unlock_failure_witness:
  "\<exists>s' new.
      create_subprocess (answers0\<lparr>unlockpt_r := - 1\<rparr>) (tty_termios tty0) ''/system/bin/sh'' ''/''
          (Some [''-sh'']) (Some [''FOO=bar'']) 0 24 80 12 24 os0
        = (Return (- 1), 0, s')
    \<and> 40 \<in> fds s'
    \<and> calls s' = calls os0 @ new
    \<and> Close 40 \<notin> set new
    \<and> Fork \<notin> set new
    \<and> last new = ThrowNew ''Cannot grantpt()/unlockpt()/ptsname_r() on /dev/ptmx''"
  using master_left_open_on_unlock_failure [of "answers0\<lparr>unlockpt_r := - 1\<rparr>"
      "tty_termios tty0" "''/system/bin/sh''" "''/''" "Some [''-sh'']" "Some [''FOO=bar'']" 0 24 80 12 24 os0]
  by (simp add: answers0_def)

section \<open>The steps of the child path\<close>

lemma issue_simps:
  "calls (issue c s) = calls s @ [c]" "fds (issue c s) = fds s"
  "environ (issue c s) = environ s" "ttys (issue c s) = ttys s" "wd (issue c s) = wd s"
  by (simp_all add: issue_def)

lemma close_fd_simps:
  "calls (close_fd fd s) = calls s @ [Close fd]" "fds (close_fd fd s) = fds s - {fd}"
  "environ (close_fd fd s) = environ s"
  by (simp_all add: close_fd_def issue_def)

lemma dup2_simps:
  "calls (dup2 old new s) = calls s @ [Dup2 old new]"
  "environ (dup2 old new s) = environ s"
  "old \<in> fds s \<Longrightarrow> fds (dup2 old new s) = insert new (fds s)"
  by (simp_all add: dup2_def issue_def)

lemma open_file_simps:
  "calls (open_file path r term s) = calls s @ [Open path r]"
  "environ (open_file path r term s) = environ s"
  "0 \<le> sint r \<Longrightarrow> fds (open_file path r term s) = insert r (fds s)"
  "sint r < 0 \<Longrightarrow> fds (open_file path r term s) = fds s"
  by (simp_all add: open_file_def issue_def)

lemma close_entries_calls:
  "calls (close_entries d es s) = calls s @ map Close (filter (closable d) (map atoi es))"
  by (induction es arbitrary: s) (simp_all add: Let_def close_fd_simps closable_def)

lemma close_entries_fds:
  "fds (close_entries d es s) = fds s - {fd \<in> atoi ` set es. closable d fd}"
  by (induction es arbitrary: s) (auto simp: Let_def close_fd_simps closable_def)

lemma close_entries_environ: "environ (close_entries d es s) = environ s"
  by (induction es arbitrary: s) (simp_all add: Let_def close_fd_simps)

lemma close_inherited_fds_environ: "environ (close_inherited_fds dir s) = environ s"
  by (simp add: close_inherited_fds_def closedir_def opendir_def issue_def close_entries_environ
      split: option.split)

lemma close_inherited_fds_calls_prefix:
  "\<exists>new. calls (close_inherited_fds dir s) = calls s @ new"
  by (simp add: close_inherited_fds_def closedir_def opendir_def issue_def close_entries_calls
      split: option.split)


lemma fold_putenv_calls:
  "calls (fold putenv vars s) = calls s @ map Putenv vars"
  by (induction vars arbitrary: s) (simp_all add: putenv_def issue_def)


lemma setup_environment_calls:
  "calls (setup_environment envp s) =
     calls s @ Clearenv # (case envp of None \<Rightarrow> [] | Some vars \<Rightarrow> map Putenv vars)"
  by (simp add: setup_environment_def clearenv_def issue_def fold_putenv_calls split: option.split)


lemma change_directory_calls:
  "calls (change_directory a cwd s) =
     calls s @ (if chdir_r a \<noteq> 0 then [Chdir cwd, Perror (chdir_message a cwd), Fflush_stderr]
                else [Chdir cwd])"
  by (simp add: change_directory_def issue_def Let_def chdir_message_def)

lemma child_path_slave_failure:
  assumes "sint (open_pts a) < 0"
  shows "child_path a cmd cwd argv envp ptm s =
     (Exit (- 1), s\<lparr>fds := fds s - {ptm}, ttys := (ttys s)(ptm := None),
                     calls := calls s @ [Sigprocmask_unblock_all, Close ptm, Setsid,
                                         Open (devname a) (open_pts a)]\<rparr>)"
  using assms by (simp add: child_path_def Let_def open_file_def close_fd_def issue_def)

lemma child_path_exec:
  assumes "0 \<le> sint (open_pts a)"
  shows "child_path a cmd cwd argv envp ptm s =
     (if execvp_returns a
      then (Exit 1, issue (Perror (exec_message a cmd))
                     (issue (Execvp cmd argv) (change_directory a cwd (before_chdir a envp ptm s))))
      else (Exec cmd argv,
            issue (Execvp cmd argv) (change_directory a cwd (before_chdir a envp ptm s))))"
  using assms by (simp add: child_path_def Let_def before_chdir_def exec_message_def)

section \<open>Failures inside the child\<close>

lemma waitFor_exit_minus_1:
  "Java_com_termux_terminal_JNI_waitFor (\<lambda>_. wait_status_of_exit (- 1)) pid = 255"
  by (simp add: Java_com_termux_terminal_JNI_waitFor_def wait_status_of_exit_def
      WIFEXITED_def WTERMSIG_def WEXITSTATUS_def)

lemma waitFor_exit_1:
  "Java_com_termux_terminal_JNI_waitFor (\<lambda>_. wait_status_of_exit 1) pid = 1"
  by (simp add: Java_com_termux_terminal_JNI_waitFor_def wait_status_of_exit_def
      WIFEXITED_def WTERMSIG_def WEXITSTATUS_def)

text \<open>
  Claim C6. In the child, a failure to open the slave device ends the process at
  once through \<open>exit(-1)\<close>: the failed \<open>open\<close> is its last call. A failure of
  \<open>execvp\<close> is reported with \<open>perror\<close> and ends the process through \<open>_exit(1)\<close>.
  Neither returns to the caller, and the two statuses reach the parent's \<open>waitFor\<close>
  as the non-zero exit codes 255 and 1.
\<close>

theorem child_setup_failure_terminates:
  assumes "0 \<le> sint (open_ptmx a)" "grantpt_r a = 0" "unlockpt_r a = 0" "ptsname_r_r a = 0"
    "fork_r a = 0"
  shows "(sint (open_pts a) < 0 \<longrightarrow>
           (\<exists>s'. create_subprocess a tios0 cmd cwd argv envp pProcessId rows columns
                    cell_width cell_height s = (Exit (- 1), pProcessId, s')
              \<and> last (calls s') = Open (devname a) (open_pts a)))
       \<and> (0 \<le> sint (open_pts a) \<and> execvp_returns a \<longrightarrow>
           (\<exists>s' before. create_subprocess a tios0 cmd cwd argv envp pProcessId rows columns
                    cell_width cell_height s = (Exit 1, pProcessId, s')
              \<and> calls s' = before @ [Execvp cmd argv, Perror (exec_message a cmd)]))
       \<and> Java_com_termux_terminal_JNI_waitFor (\<lambda>_. wait_status_of_exit (- 1)) pid = 255
       \<and> Java_com_termux_terminal_JNI_waitFor (\<lambda>_. wait_status_of_exit 1) pid = 1"
proof (intro conjI impI)
  assume "sint (open_pts a) < 0"
  then show "\<exists>s'. create_subprocess a tios0 cmd cwd argv envp pProcessId rows columns
                    cell_width cell_height s = (Exit (- 1), pProcessId, s')
              \<and> last (calls s') = Open (devname a) (open_pts a)"
    by (simp add: create_subprocess_child [OF assms] child_path_slave_failure)
next
  assume "0 \<le> sint (open_pts a) \<and> execvp_returns a"
  then show "\<exists>s' before. create_subprocess a tios0 cmd cwd argv envp pProcessId rows columns
                    cell_width cell_height s = (Exit 1, pProcessId, s')
              \<and> calls s' = before @ [Execvp cmd argv, Perror (exec_message a cmd)]"
    by (simp add: create_subprocess_child [OF assms] child_path_exec issue_simps)
qed (rule waitFor_exit_minus_1 waitFor_exit_1)+

theorem child_setup_failure_terminates_witness:
  "(\<exists>s'. create_subprocess (answers0\<lparr>fork_r := 0, open_pts := - 1\<rparr>) (tty_termios tty0)
            ''/system/bin/sh'' ''/'' (Some [''-sh'']) (Some [''FOO=bar'']) 0 24 80 12 24 os0
          = (Exit (- 1), 0, s')
        \<and> last (calls s') = Open ''/dev/pts/3'' (- 1))
   \<and> (\<exists>s' before. create_subprocess (answers0\<lparr>fork_r := 0, execvp_returns := True\<rparr>)
            (tty_termios tty0) ''/system/bin/sh'' ''/'' (Some [''-sh'']) (Some [''FOO=bar''])
            0 24 80 12 24 os0
          = (Exit 1, 0, s')
        \<and> calls s' = before @ [Execvp ''/system/bin/sh'' (Some [''-sh'']),
                                Perror (''exec('' @ [CHR 0x22] @ ''/system/bin/sh'' @ [CHR 0x22] @ '')'')])"
  using child_setup_failure_terminates [of "answers0\<lparr>fork_r := 0, open_pts := - 1\<rparr>"
      "tty_termios tty0" "''/system/bin/sh''" "''/''" "Some [''-sh'']" "Some [''FOO=bar'']" 0 24 80 12 24 os0]
    child_setup_failure_terminates [of "answers0\<lparr>fork_r := 0, execvp_returns := True\<rparr>"
      "tty_termios tty0" "''/system/bin/sh''" "''/''" "Some [''-sh'']" "Some [''FOO=bar'']" 0 24 80 12 24 os0]
  by (simp add: answers0_def exec_message_def)

text \<open>
  Claim C5. In the child, a failed change of directory is reported with \<open>perror\<close>
  and a flush of standard error, and \<open>execvp\<close> of the command is the next call. How
  the child ends does not depend on the result of \<open>chdir\<close>: its image is replaced by
  the command, or \<open>execvp\<close> fails and it ends through \<open>_exit(1)\<close>.
\<close>

theorem chdir_failure_is_soft:
  assumes "0 \<le> sint (open_ptmx a)" "grantpt_r a = 0" "unlockpt_r a = 0" "ptsname_r_r a = 0"
    "fork_r a = 0" "0 \<le> sint (open_pts a)"
  shows "fst (create_subprocess a tios0 cmd cwd argv envp pProcessId rows columns
               cell_width cell_height s)
           = (if execvp_returns a then Exit 1 else Exec cmd argv)
       \<and> fst (create_subprocess (a\<lparr>chdir_r := r\<rparr>) tios0 cmd cwd argv envp pProcessId rows columns
               cell_width cell_height s)
           = fst (create_subprocess a tios0 cmd cwd argv envp pProcessId rows columns
               cell_width cell_height s)
       \<and> (chdir_r a \<noteq> 0 \<longrightarrow>
            (\<exists>before after.
               calls (snd (snd (create_subprocess a tios0 cmd cwd argv envp pProcessId rows columns
                                  cell_width cell_height s)))
                 = before @ [Chdir cwd, Perror (chdir_message a cwd), Fflush_stderr,
                             Execvp cmd argv] @ after))"
proof (intro conjI impI)
  show "fst (create_subprocess a tios0 cmd cwd argv envp pProcessId rows columns
               cell_width cell_height s)
           = (if execvp_returns a then Exit 1 else Exec cmd argv)"
    using assms(6) by (simp add: create_subprocess_child [OF assms(1-5)] child_path_exec)
  have a': "0 \<le> sint (open_ptmx (a\<lparr>chdir_r := r\<rparr>))" "grantpt_r (a\<lparr>chdir_r := r\<rparr>) = 0"
    "unlockpt_r (a\<lparr>chdir_r := r\<rparr>) = 0" "ptsname_r_r (a\<lparr>chdir_r := r\<rparr>) = 0"
    "fork_r (a\<lparr>chdir_r := r\<rparr>) = 0"
    using assms by simp_all
  show "fst (create_subprocess (a\<lparr>chdir_r := r\<rparr>) tios0 cmd cwd argv envp pProcessId rows columns
               cell_width cell_height s)
           = fst (create_subprocess a tios0 cmd cwd argv envp pProcessId rows columns
               cell_width cell_height s)"
    using assms(6)
    by (simp add: create_subprocess_child [OF assms(1-5)] create_subprocess_child [OF a']
        child_path_exec)
  assume fails: "chdir_r a \<noteq> 0"
  let ?b = "calls (before_chdir a envp (open_ptmx a) (at_fork a rows columns cell_width cell_height s))"
  let ?after = "if execvp_returns a then [Perror (exec_message a cmd)] else []"
  have "calls (snd (snd (create_subprocess a tios0 cmd cwd argv envp pProcessId rows columns
                                  cell_width cell_height s)))
      = ?b @ [Chdir cwd, Perror (chdir_message a cwd), Fflush_stderr, Execvp cmd argv] @ ?after"
    using assms(6) fails
    by (simp add: create_subprocess_child [OF assms(1-5)] child_path_exec issue_simps
        change_directory_calls)
  then show "\<exists>before after.
               calls (snd (snd (create_subprocess a tios0 cmd cwd argv envp pProcessId rows columns
                                  cell_width cell_height s)))
                 = before @ [Chdir cwd, Perror (chdir_message a cwd), Fflush_stderr,
                             Execvp cmd argv] @ after"
    by blast
qed

theorem chdir_failure_is_soft_witness:
  "fst (create_subprocess (answers0\<lparr>fork_r := 0, chdir_r := - 1\<rparr>) (tty_termios tty0)
          ''/system/bin/sh'' ''/nonexistent'' (Some [''-sh'']) (Some [''FOO=bar'']) 0 24 80 12 24 os0)
     = Exec ''/system/bin/sh'' (Some [''-sh''])
   \<and> (\<exists>before after.
         calls (snd (snd (create_subprocess (answers0\<lparr>fork_r := 0, chdir_r := - 1\<rparr>)
            (tty_termios tty0) ''/system/bin/sh'' ''/nonexistent'' (Some [''-sh''])
            (Some [''FOO=bar'']) 0 24 80 12 24 os0)))
           = before @ [Chdir ''/nonexistent'',
                       Perror (''chdir('' @ [CHR 0x22] @ ''/nonexistent'' @ [CHR 0x22] @ '')''),
                       Fflush_stderr, Execvp ''/system/bin/sh'' (Some [''-sh''])] @ after)"
  using chdir_failure_is_soft [of "answers0\<lparr>fork_r := 0, chdir_r := - 1\<rparr>"
      "tty_termios tty0" "''/system/bin/sh''" "''/nonexistent''" "Some [''-sh'']" "Some [''FOO=bar'']"
      0 24 80 12 24 os0 0]
  by (simp add: answers0_def chdir_message_def)

section \<open>Closing inherited descriptors\<close>

lemma close_inherited_fds_Some_calls:
  "calls (close_inherited_fds (Some (d, es)) s) =
     calls s @ [Opendir ''/proc/self/fd''] @
       map Close (filter (\<lambda>fd. 2 < sint fd \<and> fd \<noteq> d) (map atoi es)) @ [Closedir d]"
proof -
  have "closable d = (\<lambda>fd. 2 < sint fd \<and> fd \<noteq> d)" by (simp add: closable_def fun_eq_iff)
  then show ?thesis
    using close_entries_calls [of d es "opendir ''/proc/self/fd'' d s"]
    by (simp add: close_inherited_fds_def closedir_def opendir_def issue_def)
qed

lemma close_inherited_fds_Some_fds:
  "fds (close_inherited_fds (Some (d, es)) s) =
     fds s - {fd \<in> atoi ` set es. 2 < sint fd \<and> fd \<noteq> d} - {d}"
  using close_entries_fds [of d es "opendir ''/proc/self/fd'' d s"]
  by (auto simp: close_inherited_fds_def closedir_def opendir_def issue_def closable_def)

lemma fold_putenv_fds: "fds (fold putenv vars s) = fds s"
  by (induction vars arbitrary: s) (simp_all add: putenv_def issue_def)

lemma setup_environment_fds: "fds (setup_environment envp s) = fds s"
  by (simp add: setup_environment_def clearenv_def issue_def fold_putenv_fds split: option.split)

lemma change_directory_fds: "fds (change_directory a cwd s) = fds s"
  by (simp add: change_directory_def issue_def Let_def)

text \<open>The state of the child after the three \<open>dup2\<close> calls, when the slave was opened.\<close>

lemma after_dup2:
  assumes "0 \<le> sint (open_pts a)"
  shows "calls (dup2 (open_pts a) 2 (dup2 (open_pts a) 1 (dup2 (open_pts a) 0
             (open_file (devname a) (open_pts a) term
                (issue Setsid (close_fd ptm (issue Sigprocmask_unblock_all s0)))))))
         = calls s0 @ [Sigprocmask_unblock_all, Close ptm, Setsid, Open (devname a) (open_pts a),
                       Dup2 (open_pts a) 0, Dup2 (open_pts a) 1, Dup2 (open_pts a) 2]"
    and "fds (dup2 (open_pts a) 2 (dup2 (open_pts a) 1 (dup2 (open_pts a) 0
             (open_file (devname a) (open_pts a) term
                (issue Setsid (close_fd ptm (issue Sigprocmask_unblock_all s0)))))))
         = insert 2 (insert 1 (insert 0 (insert (open_pts a) (fds s0 - {ptm}))))"
  using assms
  by (simp_all add: dup2_simps open_file_simps issue_simps close_fd_simps)

lemma child_calls:
  assumes "0 \<le> sint (open_ptmx a)" "grantpt_r a = 0" "unlockpt_r a = 0" "ptsname_r_r a = 0"
    "fork_r a = 0" "0 \<le> sint (open_pts a)"
  shows "calls (snd (snd (create_subprocess a tios0 cmd cwd argv envp pProcessId rows columns
                 cell_width cell_height s)))
     = calls (close_inherited_fds (opendir_r a)
         (dup2 (open_pts a) 2 (dup2 (open_pts a) 1 (dup2 (open_pts a) 0
             (open_file (devname a) (open_pts a)
                (ttys (at_fork a rows columns cell_width cell_height s) (open_ptmx a))
                (issue Setsid (close_fd (open_ptmx a) (issue Sigprocmask_unblock_all
                   (at_fork a rows columns cell_width cell_height s)))))))))
       @ Clearenv # (case envp of None \<Rightarrow> [] | Some vars \<Rightarrow> map Putenv vars)
       @ (if chdir_r a \<noteq> 0 then [Chdir cwd, Perror (chdir_message a cwd), Fflush_stderr]
          else [Chdir cwd])
       @ Execvp cmd argv # (if execvp_returns a then [Perror (exec_message a cmd)] else [])"
  using assms(6)
  by (simp add: create_subprocess_child [OF assms(1-5)] child_path_exec issue_simps
      change_directory_calls before_chdir_def setup_environment_calls)

lemma child_fds:
  assumes "0 \<le> sint (open_ptmx a)" "grantpt_r a = 0" "unlockpt_r a = 0" "ptsname_r_r a = 0"
    "fork_r a = 0" "0 \<le> sint (open_pts a)"
  shows "fds (snd (snd (create_subprocess a tios0 cmd cwd argv envp pProcessId rows columns
                 cell_width cell_height s)))
     = fds (close_inherited_fds (opendir_r a)
         (dup2 (open_pts a) 2 (dup2 (open_pts a) 1 (dup2 (open_pts a) 0
             (open_file (devname a) (open_pts a)
                (ttys (at_fork a rows columns cell_width cell_height s) (open_ptmx a))
                (issue Setsid (close_fd (open_ptmx a) (issue Sigprocmask_unblock_all
                   (at_fork a rows columns cell_width cell_height s)))))))))"
  using assms(6)
  by (simp add: create_subprocess_child [OF assms(1-5)] child_path_exec issue_simps
      change_directory_fds before_chdir_def setup_environment_fds)

lemma at_fork_fds: "fds (at_fork a rows columns cell_width cell_height s) = insert (open_ptmx a) (fds s)"
  by (simp add: at_fork_def)

text \<open>
  Claim C8. In the child of \<open>create_subprocess\<close>, after the three \<open>dup2\<close> calls and
  before \<open>clearenv\<close>, the calls are \<open>opendir\<close>, then \<open>close\<close> for exactly the listed
  descriptors that are above 2 and are not the descriptor of the directory stream,
  in the order of the listing, then \<open>closedir\<close>. When the child reaches \<open>execvp\<close> the
  open descriptors are those it had after the \<open>dup2\<close> calls without the ones so
  closed and without the stream's own, which \<open>closedir\<close> releases; 0, 1 and 2 are
  among them. When the listing cannot be opened, \<open>opendir\<close> is followed at once by
  \<open>clearenv\<close>, no descriptor is closed, and the child goes on to \<open>execvp\<close>.
\<close>

theorem inherited_fds_closed_in_child:
  assumes "0 \<le> sint (open_ptmx a)" "grantpt_r a = 0" "unlockpt_r a = 0" "ptsname_r_r a = 0"
    "fork_r a = 0" "0 \<le> sint (open_pts a)"
  shows "(opendir_r a = Some (self_dir_fd, entries) \<longrightarrow>
            calls (snd (snd (create_subprocess a tios0 cmd cwd argv envp pProcessId rows columns
                       cell_width cell_height s)))
              = calls (at_fork a rows columns cell_width cell_height s)
                @ [Sigprocmask_unblock_all, Close (open_ptmx a), Setsid,
                   Open (devname a) (open_pts a),
                   Dup2 (open_pts a) 0, Dup2 (open_pts a) 1, Dup2 (open_pts a) 2]
                @ [Opendir ''/proc/self/fd'']
                @ map Close (filter (\<lambda>fd. 2 < sint fd \<and> fd \<noteq> self_dir_fd) (map atoi entries))
                @ [Closedir self_dir_fd]
                @ Clearenv # (case envp of None \<Rightarrow> [] | Some vars \<Rightarrow> map Putenv vars)
                @ (if chdir_r a \<noteq> 0
                   then [Chdir cwd, Perror (chdir_message a cwd), Fflush_stderr]
                   else [Chdir cwd])
                @ Execvp cmd argv # (if execvp_returns a then [Perror (exec_message a cmd)] else [])
          \<and> fds (snd (snd (create_subprocess a tios0 cmd cwd argv envp pProcessId rows columns
                       cell_width cell_height s)))
              = insert 2 (insert 1 (insert 0 (insert (open_pts a) (fds s - {open_ptmx a}))))
                - {fd \<in> atoi ` set entries. 2 < sint fd \<and> fd \<noteq> self_dir_fd}
                - {self_dir_fd}
          \<and> (self_dir_fd \<notin> {0, 1, 2} \<longrightarrow>
               {0, 1, 2} \<subseteq> fds (snd (snd (create_subprocess a tios0 cmd cwd argv envp pProcessId
                       rows columns cell_width cell_height s)))))
       \<and> (opendir_r a = None \<longrightarrow>
            calls (snd (snd (create_subprocess a tios0 cmd cwd argv envp pProcessId rows columns
                       cell_width cell_height s)))
              = calls (at_fork a rows columns cell_width cell_height s)
                @ [Sigprocmask_unblock_all, Close (open_ptmx a), Setsid,
                   Open (devname a) (open_pts a),
                   Dup2 (open_pts a) 0, Dup2 (open_pts a) 1, Dup2 (open_pts a) 2]
                @ [Opendir ''/proc/self/fd'']
                @ Clearenv # (case envp of None \<Rightarrow> [] | Some vars \<Rightarrow> map Putenv vars)
                @ (if chdir_r a \<noteq> 0
                   then [Chdir cwd, Perror (chdir_message a cwd), Fflush_stderr]
                   else [Chdir cwd])
                @ Execvp cmd argv # (if execvp_returns a then [Perror (exec_message a cmd)] else [])
          \<and> fds (snd (snd (create_subprocess a tios0 cmd cwd argv envp pProcessId rows columns
                       cell_width cell_height s)))
              = insert 2 (insert 1 (insert 0 (insert (open_pts a) (fds s - {open_ptmx a})))))"
proof (intro conjI impI)
  let ?run = "snd (snd (create_subprocess a tios0 cmd cwd argv envp pProcessId rows columns
                       cell_width cell_height s))"
  let ?X = "insert 2 (insert 1 (insert 0 (insert (open_pts a) (fds s - {open_ptmx a}))))"
  {
    assume dir: "opendir_r a = Some (self_dir_fd, entries)"
    show "calls ?run
              = calls (at_fork a rows columns cell_width cell_height s)
                @ [Sigprocmask_unblock_all, Close (open_ptmx a), Setsid,
                   Open (devname a) (open_pts a),
                   Dup2 (open_pts a) 0, Dup2 (open_pts a) 1, Dup2 (open_pts a) 2]
                @ [Opendir ''/proc/self/fd'']
                @ map Close (filter (\<lambda>fd. 2 < sint fd \<and> fd \<noteq> self_dir_fd) (map atoi entries))
                @ [Closedir self_dir_fd]
                @ Clearenv # (case envp of None \<Rightarrow> [] | Some vars \<Rightarrow> map Putenv vars)
                @ (if chdir_r a \<noteq> 0
                   then [Chdir cwd, Perror (chdir_message a cwd), Fflush_stderr]
                   else [Chdir cwd])
                @ Execvp cmd argv # (if execvp_returns a then [Perror (exec_message a cmd)] else [])"
      by (simp add: child_calls [OF assms] dir close_inherited_fds_Some_calls
          after_dup2(1) [OF assms(6)])
    show fds: "fds ?run = ?X - {fd \<in> atoi ` set entries. 2 < sint fd \<and> fd \<noteq> self_dir_fd}
                - {self_dir_fd}"
      by (simp add: child_fds [OF assms] dir close_inherited_fds_Some_fds
          after_dup2(2) [OF assms(6)] at_fork_fds)
    assume "self_dir_fd \<notin> {0, 1, 2}"
    then show "{0, 1, 2} \<subseteq> fds ?run" unfolding fds by auto
  }
  {
    assume dir: "opendir_r a = None"
    show "calls ?run
              = calls (at_fork a rows columns cell_width cell_height s)
                @ [Sigprocmask_unblock_all, Close (open_ptmx a), Setsid,
                   Open (devname a) (open_pts a),
                   Dup2 (open_pts a) 0, Dup2 (open_pts a) 1, Dup2 (open_pts a) 2]
                @ [Opendir ''/proc/self/fd'']
                @ Clearenv # (case envp of None \<Rightarrow> [] | Some vars \<Rightarrow> map Putenv vars)
                @ (if chdir_r a \<noteq> 0
                   then [Chdir cwd, Perror (chdir_message a cwd), Fflush_stderr]
                   else [Chdir cwd])
                @ Execvp cmd argv # (if execvp_returns a then [Perror (exec_message a cmd)] else [])"
      by (simp add: child_calls [OF assms] dir close_inherited_fds_def issue_simps
          after_dup2(1) [OF assms(6)])
    show "fds ?run = ?X"
      by (simp add: child_fds [OF assms] dir close_inherited_fds_def issue_simps
          after_dup2(2) [OF assms(6)] at_fork_fds)
  }
qed

lemma atoi_samples:
  "atoi ''.'' = 0" "atoi ''..'' = 0" "atoi ''0'' = 0" "atoi ''1'' = 1" "atoi ''2'' = 2"
  "atoi ''3'' = 3" "atoi ''4'' = 4" "atoi ''7'' = 7"
  by (simp_all add: atoi_def strtol_def isspace_def isdigit_def)

lemma atoi_out_of_range: "atoi ''99999999999999999999'' = - 1"
  by (simp add: atoi_def strtol_def isspace_def isdigit_def)

theorem inherited_fds_closed_in_child_witness:
  "calls (snd (snd (create_subprocess (answers0\<lparr>fork_r := 0\<rparr>) (tty_termios tty0)
          ''/system/bin/sh'' ''/'' (Some [''-sh'']) (Some [''FOO=bar'']) 0 24 80 12 24 os0)))
     = calls (at_fork (answers0\<lparr>fork_r := 0\<rparr>) 24 80 12 24 os0)
       @ [Sigprocmask_unblock_all, Close 40, Setsid, Open ''/dev/pts/3'' 3,
          Dup2 3 0, Dup2 3 1, Dup2 3 2,
          Opendir ''/proc/self/fd'', Close 3, Close 7, Closedir 4,
          Clearenv, Putenv ''FOO=bar'', Chdir ''/'',
          Execvp ''/system/bin/sh'' (Some [''-sh''])]
   \<and> fds (snd (snd (create_subprocess (answers0\<lparr>fork_r := 0\<rparr>) (tty_termios tty0)
          ''/system/bin/sh'' ''/'' (Some [''-sh'']) (Some [''FOO=bar'']) 0 24 80 12 24 os0)))
     = {0, 1, 2}
   \<and> fds (snd (snd (create_subprocess
          (answers0\<lparr>fork_r := 0, opendir_r := Some (4, [''3'', ''99999999999999999999''])\<rparr>)
          (tty_termios tty0)
          ''/system/bin/sh'' ''/'' (Some [''-sh'']) (Some [''FOO=bar'']) 0 24 80 12 24 os0)))
     = {0, 1, 2, 7}
   \<and> fds (snd (snd (create_subprocess (answers0\<lparr>fork_r := 0, opendir_r := None\<rparr>)
          (tty_termios tty0)
          ''/system/bin/sh'' ''/'' (Some [''-sh'']) (Some [''FOO=bar'']) 0 24 80 12 24 os0)))
     = {0, 1, 2, 3, 7}"
proof -
  let ?a1 = "answers0\<lparr>fork_r := 0\<rparr>"
  let ?a2 = "answers0\<lparr>fork_r := 0, opendir_r := Some (4, [''3'', ''99999999999999999999''])\<rparr>"
  let ?a3 = "answers0\<lparr>fork_r := 0, opendir_r := None\<rparr>"
  have reach1: "0 \<le> sint (open_ptmx ?a1)" "grantpt_r ?a1 = 0" "unlockpt_r ?a1 = 0"
      "ptsname_r_r ?a1 = 0" "fork_r ?a1 = 0" "0 \<le> sint (open_pts ?a1)"
    and dir1: "opendir_r ?a1 = Some (4, [''.'', ''..'', ''0'', ''1'', ''2'', ''3'', ''4'', ''7''])"
    and vals1: "open_ptmx ?a1 = 40" "open_pts ?a1 = 3" "devname ?a1 = ''/dev/pts/3''"
      "chdir_r ?a1 = 0" "\<not> execvp_returns ?a1"
    by (simp_all add: answers0_def)
  have reach2: "0 \<le> sint (open_ptmx ?a2)" "grantpt_r ?a2 = 0" "unlockpt_r ?a2 = 0"
      "ptsname_r_r ?a2 = 0" "fork_r ?a2 = 0" "0 \<le> sint (open_pts ?a2)"
    and dir2: "opendir_r ?a2 = Some (4, [''3'', ''99999999999999999999''])"
    and vals2: "open_ptmx ?a2 = 40" "open_pts ?a2 = 3"
    by (simp_all add: answers0_def)
  have reach3: "0 \<le> sint (open_ptmx ?a3)" "grantpt_r ?a3 = 0" "unlockpt_r ?a3 = 0"
      "ptsname_r_r ?a3 = 0" "fork_r ?a3 = 0" "0 \<le> sint (open_pts ?a3)"
    and dir3: "opendir_r ?a3 = None"
    and vals3: "open_ptmx ?a3 = 40" "open_pts ?a3 = 3"
    by (simp_all add: answers0_def)
  note run1 = inherited_fds_closed_in_child [of ?a1
      4 "[''.'', ''..'', ''0'', ''1'', ''2'', ''3'', ''4'', ''7'']"
      "tty_termios tty0" "''/system/bin/sh''" "''/''" "Some [''-sh'']" "Some [''FOO=bar'']"
      0 24 80 12 24 os0, OF reach1, THEN conjunct1, THEN mp, OF dir1]
  note run2 = inherited_fds_closed_in_child [of ?a2 4 "[''3'', ''99999999999999999999'']"
      "tty_termios tty0" "''/system/bin/sh''" "''/''" "Some [''-sh'']" "Some [''FOO=bar'']"
      0 24 80 12 24 os0, OF reach2, THEN conjunct1, THEN mp, OF dir2]
  note run3 = inherited_fds_closed_in_child [of ?a3 4 "[]"
      "tty_termios tty0" "''/system/bin/sh''" "''/''" "Some [''-sh'']" "Some [''FOO=bar'']"
      0 24 80 12 24 os0, OF reach3, THEN conjunct2, THEN mp, OF dir3]
  have closed1: "{fd \<in> atoi ` set [''.'', ''..'', ''0'', ''1'', ''2'', ''3'', ''4'', ''7''].
                2 < sint fd \<and> fd \<noteq> 4} = {3, 7}"
    by (auto simp: atoi_samples)
  have closed2: "{fd \<in> atoi ` set [''3'', ''99999999999999999999'']. 2 < sint fd \<and> fd \<noteq> 4} = {3}"
    by (auto simp: atoi_samples atoi_out_of_range)
  have sets: "insert 2 (insert 1 (insert 0 (insert 3 ({0, 1, 2, 7} - {40})))) - {3, 7} - {4}
        = ({0, 1, 2} :: c_int set)"
      "insert 2 (insert 1 (insert 0 (insert 3 ({0, 1, 2, 7} - {40})))) - {3} - {4}
        = ({0, 1, 2, 7} :: c_int set)"
      "insert 2 (insert 1 (insert 0 (insert 3 ({0, 1, 2, 7} - {40}))))
        = ({0, 1, 2, 3, 7} :: c_int set)"
    by auto
  have c1: "calls (snd (snd (create_subprocess ?a1 (tty_termios tty0)
          ''/system/bin/sh'' ''/'' (Some [''-sh'']) (Some [''FOO=bar'']) 0 24 80 12 24 os0)))
     = calls (at_fork ?a1 24 80 12 24 os0)
       @ [Sigprocmask_unblock_all, Close 40, Setsid, Open ''/dev/pts/3'' 3,
          Dup2 3 0, Dup2 3 1, Dup2 3 2,
          Opendir ''/proc/self/fd'', Close 3, Close 7, Closedir 4,
          Clearenv, Putenv ''FOO=bar'', Chdir ''/'',
          Execvp ''/system/bin/sh'' (Some [''-sh''])]"
    using run1 [THEN conjunct1] by (simp add: vals1 atoi_samples)
  have f1: "fds (snd (snd (create_subprocess ?a1 (tty_termios tty0)
          ''/system/bin/sh'' ''/'' (Some [''-sh'']) (Some [''FOO=bar'']) 0 24 80 12 24 os0)))
     = {0, 1, 2}"
    using sets(1) run1 [THEN conjunct2, THEN conjunct1]
    by (simp only: closed1 vals1 os0_def os.simps)
  have f2: "fds (snd (snd (create_subprocess ?a2 (tty_termios tty0)
          ''/system/bin/sh'' ''/'' (Some [''-sh'']) (Some [''FOO=bar'']) 0 24 80 12 24 os0)))
     = {0, 1, 2, 7}"
    using sets(2) run2 [THEN conjunct2, THEN conjunct1]
    by (simp only: closed2 vals2 os0_def os.simps)
  have f3: "fds (snd (snd (create_subprocess ?a3 (tty_termios tty0)
          ''/system/bin/sh'' ''/'' (Some [''-sh'']) (Some [''FOO=bar'']) 0 24 80 12 24 os0)))
     = {0, 1, 2, 3, 7}"
    using sets(3) run3 [THEN conjunct2]
    by (simp only: vals3 os0_def os.simps)
  from c1 f1 f2 f3 show ?thesis by (intro conjI)
qed

section \<open>The environment of the child\<close>








section \<open>Marshalling of the argument and environment vectors\<close>

lemma malloc_live:
  "malloc fails h = (r, h') \<Longrightarrow>
     requests h' = Suc (requests h) \<and>
     live h' = live h @ (case r of None \<Rightarrow> [] | Some p \<Rightarrow> [p]) \<and>
     (\<forall>p. r = Some p \<longrightarrow> p = requests h)"
  by (auto simp: malloc_def split: if_splits)

lemma strdup_live:
  "strdup fails str h = (r, h') \<Longrightarrow>
     requests h' = Suc (requests h) \<and>
     live h' = live h @ (case r of None \<Rightarrow> [] | Some (p, t) \<Rightarrow> [p]) \<and>
     (\<forall>p t. r = Some (p, t) \<longrightarrow> p = requests h)"
  by (auto simp: strdup_def malloc_def split: if_splits)

lemma addresses_append: "addresses (xs @ ys) = addresses xs @ addresses ys"
  by (induction xs rule: addresses.induct) simp_all

lemma copy_strings_live:
  "copy_strings fails js filled h = (r, h') \<Longrightarrow>
     requests h \<le> requests h' \<and>
     (\<exists>new. live h' = live h @ new \<and> (\<forall>p\<in>set new. requests h \<le> p) \<and>
        (\<forall>entries. r = Some entries \<longrightarrow> addresses entries = addresses filled @ new))"
proof (induction fails js filled h arbitrary: r h' rule: copy_strings.induct)
  case (1 fails filled h)
  then show ?case by auto
next
  case (2 fails js filled h)
  then show ?case by auto
next
  case (3 fails utf8 js filled h)
  obtain copy h1 where sd: "strdup fails utf8 h = (copy, h1)" by (cases "strdup fails utf8 h")
  note s1 = strdup_live [OF sd]
  have rec: "copy_strings fails js (filled @ [copy]) h1 = (r, h')"
    using "3.prems" sd by simp
  from "3.IH" [OF sd [symmetric] refl rec]
  obtain new where new: "requests h1 \<le> requests h'" "live h' = live h1 @ new"
      "\<forall>p\<in>set new. requests h1 \<le> p"
      "\<forall>entries. r = Some entries \<longrightarrow> addresses entries = addresses (filled @ [copy]) @ new"
    by blast
  let ?first = "case copy of None \<Rightarrow> [] | Some (p, t) \<Rightarrow> [p]"
  have a: "addresses (filled @ [copy]) = addresses filled @ ?first"
    by (cases copy) (auto simp: addresses_append)
  have "live h' = live h @ (?first @ new)" using s1 new(2) by simp
  moreover have "\<forall>p\<in>set (?first @ new). requests h \<le> p"
    using s1 new(3) by (cases copy) auto
  moreover have "\<forall>entries. r = Some entries \<longrightarrow> addresses entries = addresses filled @ (?first @ new)"
    using new(4) a by simp
  moreover have "requests h \<le> requests h'" using s1 new(1) by simp
  ultimately show ?case by blast
qed

lemma free_entries_live:
  "list_all (\<lambda>e. e \<noteq> None) es \<Longrightarrow>
     live (free_entries es h) = filter (\<lambda>x. x \<notin> set (addresses es)) (live h)"
proof (induction es h rule: free_entries.induct)
  case (3 p str es h)
  then have "live (free_entries es (free p h)) = filter (\<lambda>x. x \<notin> set (addresses es)) (live (free p h))"
    by simp
  also have "\<dots> = filter (\<lambda>x. x \<notin> set (addresses (Some (p, str) # es))) (live h)"
    by (induction "live h" arbitrary: h) (auto simp: free_def removeAll_filter_not_eq intro: filter_cong)
  finally show ?case by simp
qed simp_all

lemma env_conversion_failure_keeps_blocks:
  assumes "0 < GetArrayLength args" "malloc fails h = (Some p, h1)"
    "copy_strings fails (the args) [] h1 = (Some entries, h2)"
    "0 < GetArrayLength envVars" "malloc fails h2 = (Some q, h3)"
    "copy_strings fails (the envVars) [] h3 = (None, h4)"
  shows "Java_com_termux_terminal_JNI_createSubprocess fails a tios0 critical cmd cwd args envVars
       processId rows columns cell_width cell_height h s
     = (Return (- 1), processId, h4, issue (ThrowNew ''GetStringUTFChars() failed for env'') s)"
    and "p \<in> set (live h4)" and "set (addresses entries) \<subseteq> set (live h4)" and "q \<in> set (live h4)"
proof -
  show "Java_com_termux_terminal_JNI_createSubprocess fails a tios0 critical cmd cwd args envVars
       processId rows columns cell_width cell_height h s
     = (Return (- 1), processId, h4, issue (ThrowNew ''GetStringUTFChars() failed for env'') s)"
    using assms
    by (simp add: Java_com_termux_terminal_JNI_createSubprocess_def throw_runtime_exception_def)
  have 1: "live h1 = live h @ [p]" using malloc_live [OF assms(2)] by simp
  obtain new where 2: "live h2 = live h1 @ new" "addresses entries = new"
    using copy_strings_live [OF assms(3)] by auto
  have 3: "live h3 = live h2 @ [q]" using malloc_live [OF assms(5)] by simp
  obtain new' where 4: "live h4 = live h3 @ new'"
    using copy_strings_live [OF assms(6)] by auto
  show "p \<in> set (live h4)" "set (addresses entries) \<subseteq> set (live h4)" "q \<in> set (live h4)"
    by (auto simp: 1 2 3 4)
qed

lemma envp_malloc_failure_releases_argv:
  assumes "0 < GetArrayLength args" "malloc fails h = (Some p, h1)"
    "copy_strings fails (the args) [] h1 = (Some entries, h2)"
    "0 < GetArrayLength envVars" "malloc fails h2 = (None, h3)"
    "list_all (\<lambda>e. e \<noteq> None) entries" "\<forall>x\<in>set (live h). x < requests h"
  shows "\<exists>h'. Java_com_termux_terminal_JNI_createSubprocess fails a tios0 critical cmd cwd args envVars
       processId rows columns cell_width cell_height h s
     = (Return (- 1), processId, h', issue (ThrowNew ''malloc() for envp array failed'') s)
     \<and> live h' = live h"
proof -
  let ?h' = "free_vector (Some (p, entries)) h3"
  have run: "Java_com_termux_terminal_JNI_createSubprocess fails a tios0 critical cmd cwd args envVars
       processId rows columns cell_width cell_height h s
     = (Return (- 1), processId, ?h', issue (ThrowNew ''malloc() for envp array failed'') s)"
    using assms(1-5)
    by (simp add: Java_com_termux_terminal_JNI_createSubprocess_def throw_runtime_exception_def)
  have 1: "live h1 = live h @ [p]" "p = requests h" "requests h1 = Suc (requests h)"
    using malloc_live [OF assms(2)] by simp_all
  obtain new where 2: "live h2 = live h1 @ new" "addresses entries = new"
      "\<forall>x\<in>set new. requests h1 \<le> x"
    using copy_strings_live [OF assms(3)] by auto
  have 3: "live h3 = live h2" using malloc_live [OF assms(5)] by simp
  have old: "\<forall>x\<in>set (live h). x \<noteq> p \<and> x \<notin> set new"
    using assms(7) 1(2,3) 2(3) by fastforce
  have "live ?h' = removeAll p (filter (\<lambda>x. x \<notin> set new) (live h @ [p] @ new))"
    by (simp add: free_vector_def free_def free_entries_live [OF assms(6)] 1 2 3)
  also have "\<dots> = removeAll p (filter (\<lambda>x. x \<notin> set new) (live h))"
    by simp
  also have "\<dots> = live h"
    using old by (auto simp: removeAll_filter_not_eq filter_id_conv)
  finally show ?thesis using run by blast
qed

text \<open>
  Claim C2 does not hold of the code. With one argument and two environment strings,
  the conversion of the second environment string failing, the function throws and
  returns \<open>-1\<close> while the argument array, the copy of the argument, the environment
  array and the copy of the first environment string are all still allocated. On the
  sibling path, where it is the allocation of the environment array that fails, the
  same call leaves nothing allocated.
\<close>

theorem env_conversion_failure_leaks:
  "Java_com_termux_terminal_JNI_createSubprocess never answers0 (tty_termios tty0) True
       ''/system/bin/sh'' ''/'' (Some [Some ''-sh'']) (Some [Some ''FOO=bar'', None])
       0 24 80 12 24 heap0 os0
     = (Return (- 1), 0, \<lparr>live = [0, 1, 2, 3], requests = 4\<rparr>,
        os0\<lparr>calls := [ThrowNew ''GetStringUTFChars() failed for env'']\<rparr>)
   \<and> Java_com_termux_terminal_JNI_createSubprocess (\<lambda>n. n = 2) answers0 (tty_termios tty0) True
       ''/system/bin/sh'' ''/'' (Some [Some ''-sh'']) (Some [Some ''FOO=bar'', None])
       0 24 80 12 24 heap0 os0
     = (Return (- 1), 0, \<lparr>live = [], requests = 3\<rparr>,
        os0\<lparr>calls := [ThrowNew ''malloc() for envp array failed'']\<rparr>)"
  by (simp add: Java_com_termux_terminal_JNI_createSubprocess_def GetArrayLength_def
      malloc_def strdup_def free_vector_def free_def never_def heap0_def os0_def
      throw_runtime_exception_def issue_def)

end
